theory Spec2Isabelle
  imports Main "HOL-Library.Word" "HOL-Library.Sublist"
begin

section \<open>Data model (models.go, config.go)\<close>

text \<open>
  Go's \<open>int\<close> is a 64-bit two's-complement integer on the platforms of the released
  images (amd64, arm64): \<open>+\<close> wraps, and the comparisons of the source are the signed
  ones (\<open>\<le>s\<close>, \<open><s\<close>). Strings are byte strings. A \<open>time.Time\<close> is a natural
  number (a clock reading); the only use the engine makes of it is to store it.
\<close>

type_synonym go_int = "64 word"

record AccountConfig =
  acc_Name :: string
  ApiToken :: string
  Email :: string
  ApiKey :: string

text \<open>
  The monitor row. \<open>Schedules\<close> is an association that \<open>DB.First\<close> does not load; the
  schedule rows live in their own relation (below).
\<close>

record Monitor =
  ID :: nat
  Name :: string
  AccountName :: string
  Target :: string
  Type :: string
  DNSType :: string
  Interval :: go_int
  Timeout :: go_int
  Retries :: go_int
  RecoveryRetries :: go_int
  Status :: string
  LastCheck :: nat
  FailCount :: go_int
  SuccCount :: go_int
  CurrentIP :: string
  BackupIP :: string
  OriginalIP :: string
  CFZoneID :: string
  CFRecordID :: string
  CFDomain :: string

record ScheduleConfig =
  scfg_Cron :: string
  scfg_TargetIP :: string

record MonitorConfig =
  mc_Name :: string
  mc_Account :: string
  mc_Domain :: string
  mc_ZoneID :: string
  mc_RecordID :: string
  mc_Type :: string
  mc_DNSType :: string
  mc_Target :: string
  mc_OriginalIP :: string
  mc_BackupIP :: string
  mc_Interval :: go_int
  mc_Timeout :: go_int
  mc_Retries :: go_int
  mc_RecoveryRetries :: go_int
  mc_Schedules :: "ScheduleConfig list"

text \<open>A schedule row; its own primary key is assigned by the database and never read.\<close>

record Schedule =
  MonitorID :: nat
  Cron :: string
  TargetIP :: string

definition ApplyDefaults :: "Monitor \<Rightarrow> Monitor" where
  "ApplyDefaults m0 =
     (let m1 = (if Interval m0 \<le>s 0 then m0\<lparr>Interval := 60\<rparr> else m0);
          m2 = (if Timeout m1 \<le>s 0 then m1\<lparr>Timeout := 5\<rparr> else m1);
          m3 = (if Retries m2 \<le>s 0 then m2\<lparr>Retries := 3\<rparr> else m2);
          m4 = (if RecoveryRetries m3 \<le>s 0 then m3\<lparr>RecoveryRetries := 2\<rparr> else m3);
          m5 = (if Type m4 = '''' then m4\<lparr>Type := ''ping''\<rparr> else m4)
      in if DNSType m5 = '''' then m5\<lparr>DNSType := ''A''\<rparr> else m5)"

text \<open>\<open>ToMonitor\<close>: the fields the struct literal does not name are Go's zero values.\<close>

definition ToMonitor :: "MonitorConfig \<Rightarrow> Monitor" where
  "ToMonitor mc = ApplyDefaults
     \<lparr> ID = 0, Name = mc_Name mc, AccountName = mc_Account mc, Target = mc_Target mc,
       Type = mc_Type mc, DNSType = mc_DNSType mc, Interval = mc_Interval mc,
       Timeout = mc_Timeout mc, Retries = mc_Retries mc,
       RecoveryRetries = mc_RecoveryRetries mc, Status = '''', LastCheck = 0,
       FailCount = 0, SuccCount = 0, CurrentIP = '''', BackupIP = mc_BackupIP mc,
       OriginalIP = mc_OriginalIP mc, CFZoneID = mc_ZoneID mc,
       CFRecordID = mc_RecordID mc, CFDomain = mc_Domain mc \<rparr>"


section \<open>The world outside the functions\<close>

text \<open>
  An HTTP request to the DNS provider, as \<open>newCloudflareRequest\<close> builds it. The body
  is the payload map before \<open>json.Marshal\<close> (empty for a request without body).
\<close>

record Request =
  req_method :: string
  req_url :: string
  req_headers :: "(string \<times> string) list"
  req_body :: "(string \<times> string) list"

text \<open>
  What \<open>cfClient.Do\<close> gives back: a transport error, or a status code with a body. The
  body is kept as \<open>json.Unmarshal\<close> decodes it into the envelope of
  \<open>FetchCloudflareRecordID\<close>: undecodable, or \<open>success\<close>, the error messages and the
  ids of \<open>result\<close>.
\<close>

datatype Body = Malformed | Envelope bool "string list" "string list"

datatype HttpResult = TransportError | Response int Body

text \<open>A probe client of the cache: its timeout (a \<open>time.Duration\<close>, nanoseconds in an
  \<open>int64\<close>) and the address its dialer is pinned to (empty: no override).\<close>

record HttpClient =
  cl_Timeout :: "64 word"
  cl_forceIP :: string

text \<open>A context made by \<open>context.WithTimeout\<close>: the timeout it was made with.\<close>

record Context =
  ctx_timeout :: "64 word"

text \<open>
  The messages handed to \<open>SendNotification\<close>, by the arguments of their format string
  (the monitor's name and the address) rather than by their rendered text.
\<close>

datatype Notification =
  FAILOVER string string
  | RECOVERY string string
  | SCHEDULED_SWITCH string string
  | MANUAL_RECOVERY string string

text \<open>Everything the engine does to the outside, in the order it does it.\<close>

datatype Event =
  CfRequest Request
  | Notify Notification
  | WithTimeout Context
  | Exec Context "string list"
  | Sleep nat
  | HttpGet HttpClient string

text \<open>
  The environment: the configured accounts and the answers of everything that is not
  this repository's code, each as a function of what has happened so far.
  \<open>url_ok\<close> says whether \<open>http.NewRequest\<close> accepts a URL; \<open>cf_do\<close> is
  \<open>cfClient.Do\<close>; \<open>cmd_run\<close> says whether \<open>cmd.Run\<close> returned no error;
  \<open>probe_do\<close> is the probe client's \<open>Do\<close> (no value: an error; else the status code);
  \<open>time_now\<close> is \<open>time.Now\<close>; \<open>SplitHostPort\<close> and \<open>JoinHostPort\<close> are those of
  package \<open>net\<close>.
\<close>

record Env =
  Accounts :: "AccountConfig list"
  GOOS :: string
  url_ok :: "string \<Rightarrow> bool"
  cf_do :: "Event list \<Rightarrow> Request \<Rightarrow> HttpResult"
  cmd_run :: "Event list \<Rightarrow> Context \<Rightarrow> string list \<Rightarrow> bool"
  probe_do :: "Event list \<Rightarrow> HttpClient \<Rightarrow> string \<Rightarrow> int option"
  time_now :: "Event list \<Rightarrow> nat"
  SplitHostPort :: "string \<Rightarrow> (string \<times> string) option"
  JoinHostPort :: "string \<Rightarrow> string \<Rightarrow> string"

text \<open>
  The mutable state: the two relations of the database, the process-wide cache of probe
  clients (by key), and the trace of events. A read or write of the database that fails
  for a reason other than a missing row is outside the model.
\<close>

record World =
  db :: "Monitor list"
  schedules :: "Schedule list"
  httpClients :: "string \<rightharpoonup> HttpClient"
  trace :: "Event list"

definition emit :: "Event \<Rightarrow> World \<Rightarrow> World" where
  "emit e w = w\<lparr>trace := trace w @ [e]\<rparr>"

text \<open>\<open>DB.First(&m, id)\<close>: the row with that primary key, if there is one.\<close>

definition db_first :: "nat \<Rightarrow> World \<Rightarrow> Monitor option" where
  "db_first k w = find (\<lambda>r. ID r = k) (db w)"

text \<open>
  A column-restricted update (\<open>DB.Model(m).Select(...).Updates(m)\<close>,
  \<open>DB.Model(m).Update(col, v)\<close>): \<open>f\<close> writes the selected columns into the row with
  primary key \<open>k\<close>; no row, no change.
\<close>

definition db_updates :: "nat \<Rightarrow> (Monitor \<Rightarrow> Monitor) \<Rightarrow> World \<Rightarrow> World" where
  "db_updates k f w = w\<lparr>db := map (\<lambda>r. if ID r = k then f r else r) (db w)\<rparr>"

definition SendNotification :: "Notification \<Rightarrow> World \<Rightarrow> World" where
  "SendNotification n w = emit (Notify n) w"


text \<open>
  \<open>DB.Save(&m)\<close>: all columns of the row with the primary key of \<open>m\<close> are written;
  a row that is not there is inserted.
\<close>

definition db_save :: "Monitor \<Rightarrow> World \<Rightarrow> World" where
  "db_save m w =
     (if list_ex (\<lambda>r. ID r = ID m) (db w)
      then db_updates (ID m) (\<lambda>r. m) w
      else w\<lparr>db := db w @ [m]\<rparr>)"

text \<open>\<open>DB.Create(&m)\<close>: the database assigns the next primary key.\<close>

definition next_id :: "World \<Rightarrow> nat" where
  "next_id w = Suc (fold max (map ID (db w)) 0)"

definition db_create :: "Monitor \<Rightarrow> World \<Rightarrow> Monitor \<times> World" where
  "db_create m w = (let m' = m\<lparr>ID := next_id w\<rparr> in (m', w\<lparr>db := db w @ [m']\<rparr>))"

text \<open>
  \<open>DB.Where("name = ?", n).First(&m)\<close>: of the rows with that name, the one with the
  least primary key.
\<close>

definition db_first_by_name :: "string \<Rightarrow> World \<Rightarrow> Monitor option" where
  "db_first_by_name n w =
     (case filter (\<lambda>r. Name r = n) (db w) of
        [] \<Rightarrow> None
      | r # rs \<Rightarrow> Some (fold (\<lambda>a b. if ID a < ID b then a else b) rs r))"

text \<open>\<open>strconv.Itoa\<close> and the verb \<open>%d\<close>: the decimal numeral of a signed integer.\<close>

fun digits :: "nat \<Rightarrow> string" where
  "digits n =
     (if n < 10 then [char_of (48 + n)]
      else digits (n div 10) @ [char_of (48 + n mod 10)])"

declare digits.simps [simp del]

definition Itoa :: "go_int \<Rightarrow> string" where
  "Itoa i = (if i <s 0 then CHR ''-'' # digits (nat (- sint i)) else digits (nat (sint i)))"


section \<open>Cloudflare service (cloudflare.go)\<close>

definition GetAccountConfig :: "AccountConfig list \<Rightarrow> string \<Rightarrow> AccountConfig option" where
  "GetAccountConfig accounts name =
     (case find (\<lambda>a. acc_Name a = name) accounts of
        Some a \<Rightarrow> Some a
      | None \<Rightarrow> (case accounts of a # _ \<Rightarrow> Some a | [] \<Rightarrow> None))"

definition newCloudflareRequest ::
  "Env \<Rightarrow> string \<Rightarrow> string \<Rightarrow> (string \<times> string) list \<Rightarrow> AccountConfig \<Rightarrow> Request option" where
  "newCloudflareRequest env method url body acc =
     (if \<not> url_ok env url then None
      else Some \<lparr> req_method = method, req_url = url,
                  req_headers =
                    (if ApiToken acc \<noteq> ''''
                     then [(''Authorization'', ''Bearer '' @ ApiToken acc)]
                     else [(''X-Auth-Email'', Email acc), (''X-Auth-Key'', ApiKey acc)])
                    @ [(''Content-Type'', ''application/json'')],
                  req_body = body \<rparr>)"

datatype FetchError =
  AccountNotFound string
  | RequestError
  | FetchTransport
  | ParseError
  | ApiError string
  | RecordNotFound

definition FetchCloudflareRecordID ::
  "Env \<Rightarrow> Monitor \<Rightarrow> World \<Rightarrow> (FetchError + string) \<times> World" where
  "FetchCloudflareRecordID env m w =
     (case GetAccountConfig (Accounts env) (AccountName m) of
        None \<Rightarrow> (Inl (AccountNotFound (AccountName m)), w)
      | Some accConfig \<Rightarrow>
          (let dnsType = (if DNSType m = '''' then ''A'' else DNSType m);
               url = ''https://api.cloudflare.com/client/v4/zones/'' @ CFZoneID m
                     @ ''/dns_records?name='' @ CFDomain m @ ''&type='' @ dnsType
           in case newCloudflareRequest env ''GET'' url [] accConfig of
                None \<Rightarrow> (Inl RequestError, w)
              | Some req \<Rightarrow>
                  (let w1 = emit (CfRequest req) w
                   in case cf_do env (trace w) req of
                        TransportError \<Rightarrow> (Inl FetchTransport, w1)
                      | Response code body \<Rightarrow>
                          (case body of
                             Malformed \<Rightarrow> (Inl ParseError, w1)
                           | Envelope success errors result \<Rightarrow>
                               if \<not> success
                               then (Inl (ApiError (case errors of [] \<Rightarrow> ''unknown error''
                                                    | e # _ \<Rightarrow> e)), w1)
                               else (case result of
                                       rid # _ \<Rightarrow> (Inr rid, w1)
                                     | [] \<Rightarrow> (Inl RecordNotFound, w1))))))"

text \<open>
  \<open>UpdateCloudflareDNS\<close> returns its verdict, the monitor (whose \<open>CFRecordID\<close> it may
  have filled in through the pointer) and the world.
\<close>

definition UpdateCloudflareDNS ::
  "Env \<Rightarrow> Monitor \<Rightarrow> string \<Rightarrow> World \<Rightarrow> bool \<times> Monitor \<times> World" where
  "UpdateCloudflareDNS env m targetIP w =
     (if CFZoneID m = '''' \<or> targetIP = '''' then (False, m, w)
      else
        (let (have_id, m1, w1) =
               (if CFRecordID m = '''' then
                  (let (r, w') = FetchCloudflareRecordID env m w
                   in case r of
                        Inr newID \<Rightarrow>
                          if newID \<noteq> ''''
                          then (True, m\<lparr>CFRecordID := newID\<rparr>,
                                db_updates (ID m) (\<lambda>r. r\<lparr>CFRecordID := newID\<rparr>) w')
                          else (False, m, w')
                      | Inl e \<Rightarrow> (False, m, w'))
                else (True, m, w))
         in if \<not> have_id then (False, m1, w1)
            else
              (case GetAccountConfig (Accounts env) (AccountName m1) of
                 None \<Rightarrow> (False, m1, w1)
               | Some acc \<Rightarrow>
                   (let url = ''https://api.cloudflare.com/client/v4/zones/'' @ CFZoneID m1
                              @ ''/dns_records/'' @ CFRecordID m1;
                        dnsType = (if DNSType m1 = '''' then ''A'' else DNSType m1);
                        payload = [(''content'', targetIP), (''name'', CFDomain m1),
                                   (''type'', dnsType)]
                    in case newCloudflareRequest env ''PATCH'' url payload acc of
                         None \<Rightarrow> (False, m1, w1)
                       | Some req \<Rightarrow>
                           (case cf_do env (trace w1) req of
                              TransportError \<Rightarrow> (False, m1, emit (CfRequest req) w1)
                            | Response code body \<Rightarrow>
                                (200 \<le> code \<and> code < 300, m1, emit (CfRequest req) w1))))))"


section \<open>Engine (monitor.go)\<close>

text \<open>The local \<open>threshold\<close> of \<open>HandleSuccess\<close>.\<close>

definition threshold :: "Monitor \<Rightarrow> go_int" where
  "threshold m =
     (if RecoveryRetries m = 0
      then (if Retries m = 0 then 3 else Retries m)
      else RecoveryRetries m)"

definition HandleSuccess :: "Env \<Rightarrow> Monitor \<Rightarrow> World \<Rightarrow> Monitor \<times> World" where
  "HandleSuccess env m0 w =
     (if Status m0 = ''Down'' then
        (let m = m0\<lparr>SuccCount := SuccCount m0 + 1\<rparr>
         in if threshold m \<le>s SuccCount m then
              (let (ok, m1, w1) = UpdateCloudflareDNS env m (OriginalIP m) w
               in if ok
                  then (m1\<lparr>Status := ''Normal'', SuccCount := 0, CurrentIP := OriginalIP m1\<rparr>,
                        SendNotification (RECOVERY (Name m1) (OriginalIP m1)) w1)
                  else (m1, w1))
            else (m, w))
      else (m0\<lparr>FailCount := 0\<rparr>, w))"

definition HandleFailure :: "Env \<Rightarrow> Monitor \<Rightarrow> World \<Rightarrow> Monitor \<times> World" where
  "HandleFailure env m0 w =
     (if Status m0 = ''Normal'' then
        (let m = m0\<lparr>FailCount := FailCount m0 + 1\<rparr>
         in if Retries m \<le>s FailCount m then
              (let (ok, m1, w1) = UpdateCloudflareDNS env m (BackupIP m) w
               in if ok
                  then (m1\<lparr>Status := ''Down'', FailCount := 0, CurrentIP := BackupIP m1\<rparr>,
                        SendNotification (FAILOVER (Name m1) (BackupIP m1)) w1)
                  else (m1, w1))
            else (m, w))
      else (m0\<lparr>SuccCount := 0\<rparr>, w))"

definition ScheduledSwitch :: "Env \<Rightarrow> nat \<Rightarrow> string \<Rightarrow> World \<Rightarrow> World" where
  "ScheduledSwitch env monitorID targetIP w =
     (case db_first monitorID w of
        None \<Rightarrow> w
      | Some m \<Rightarrow>
          if Status m = ''Down'' then w
          else
            (let (ok, m1, w1) = UpdateCloudflareDNS env m targetIP w
             in if ok then
                  (let m2 = m1\<lparr>CurrentIP := targetIP, FailCount := 0, SuccCount := 0\<rparr>;
                       w2 = db_updates (ID m2)
                              (\<lambda>r. r\<lparr>CurrentIP := CurrentIP m2, FailCount := FailCount m2,
                                      SuccCount := SuccCount m2\<rparr>) w1
                   in SendNotification (SCHEDULED_SWITCH (Name m2) targetIP) w2)
                else w1))"


text \<open>
  \<open>getHTTPClient\<close>: the cache is keyed by \<open>fmt.Sprintf("%s-%d", forceIP, timeout)\<close>.
  The transport's fixed settings (no certificate verification, keep-alive, idle limits)
  are the same for every client and are left out of the record.
\<close>

definition getHTTPClient :: "string \<Rightarrow> go_int \<Rightarrow> World \<Rightarrow> HttpClient \<times> World" where
  "getHTTPClient forceIP timeout w =
     (let key = forceIP @ ''-'' @ Itoa timeout
      in case httpClients w key of
           Some client \<Rightarrow> (client, w)
         | None \<Rightarrow>
             (let client = \<lparr> cl_Timeout = timeout * 1000000000, cl_forceIP = forceIP \<rparr>
              in (client, w\<lparr>httpClients := (httpClients w)(key \<mapsto> client)\<rparr>)))"

text \<open>
  The address a client's transport connects to when asked for \<open>addr\<close> (the
  \<open>host:port\<close> of the request's URL): the \<open>DialContext\<close> closure of \<open>getHTTPClient\<close>
  when \<open>forceIP\<close> is not empty, the default dialer otherwise.
\<close>

definition DialContext :: "Env \<Rightarrow> HttpClient \<Rightarrow> string \<Rightarrow> string" where
  "DialContext env client addr =
     (if cl_forceIP client \<noteq> '''' then
        (case SplitHostPort env addr of
           None \<Rightarrow> addr
         | Some (host, port) \<Rightarrow> JoinHostPort env (cl_forceIP client) port)
      else addr)"

definition CheckHTTP :: "Env \<Rightarrow> string \<Rightarrow> go_int \<Rightarrow> string \<Rightarrow> World \<Rightarrow> bool \<times> World" where
  "CheckHTTP env target0 timeout forceIP w =
     (let target = (if \<not> prefix ''http'' target0 then ''http://'' @ target0 else target0);
          (client, w1) = getHTTPClient forceIP timeout w
      in if \<not> url_ok env target then (False, w1)
         else
           (case probe_do env (trace w1) client target of
              None \<Rightarrow> (False, emit (HttpGet client target) w1)
            | Some code \<Rightarrow> (200 \<le> code \<and> code < 400, emit (HttpGet client target) w1)))"

text \<open>
  The loop of \<open>CheckPing\<close>, by the number of iterations left. The context is made
  once, before the loop (the event \<open>WithTimeout\<close>: its deadline runs from there), and
  every command is started under it.
\<close>

fun ping_loop :: "Env \<Rightarrow> Context \<Rightarrow> string \<Rightarrow> go_int \<Rightarrow> nat \<Rightarrow> World \<Rightarrow> bool \<times> World" where
  "ping_loop env ctx host timeout 0 w = (False, w)"
| "ping_loop env ctx host timeout (Suc n) w =
     (let timeoutStr = Itoa timeout;
          cmd = (if GOOS env = ''windows''
                 then [''ping'', ''-n'', ''1'', ''-w'', Itoa (timeout * 1000), host]
                 else [''ping'', ''-c'', ''1'', ''-W'', timeoutStr, host])
      in if cmd_run env (trace w) ctx cmd
         then (True, emit (Exec ctx cmd) w)
         else ping_loop env ctx host timeout n (emit (Sleep 500) (emit (Exec ctx cmd) w)))"

definition CheckPing :: "Env \<Rightarrow> string \<Rightarrow> go_int \<Rightarrow> World \<Rightarrow> bool \<times> World" where
  "CheckPing env host timeout w =
     (let ctx = \<lparr> ctx_timeout = (timeout + 2) * 1000000000 \<rparr>
      in ping_loop env ctx host timeout 3 (emit (WithTimeout ctx) w))"

text \<open>The probe of \<open>CheckMonitor\<close>: the choice of target and the \<open>switch\<close> on the type.\<close>

definition probe :: "Env \<Rightarrow> Monitor \<Rightarrow> World \<Rightarrow> bool \<times> World" where
  "probe env m w =
     (let checkTarget = (if OriginalIP m = '''' then Target m else OriginalIP m)
      in if Type m = ''ping'' then CheckPing env checkTarget (Timeout m) w
         else if Type m = ''http'' \<or> Type m = ''https''
         then CheckHTTP env (Target m) (Timeout m) (OriginalIP m) w
         else CheckPing env checkTarget (Timeout m) w)"

text \<open>
  \<open>CheckMonitor\<close> reads nothing of its argument but the primary key: the struct is
  overwritten with the row just read.
\<close>

definition CheckMonitor :: "Env \<Rightarrow> nat \<Rightarrow> World \<Rightarrow> World" where
  "CheckMonitor env mid w =
     (case db_first mid w of
        None \<Rightarrow> w
      | Some currentMonitor \<Rightarrow>
          (let m = ApplyDefaults currentMonitor;
               (isUp, w1) = probe env m w;
               (m1, w2) = (if isUp then HandleSuccess env m w1 else HandleFailure env m w1);
               m2 = m1\<lparr>LastCheck := time_now env (trace w2)\<rparr>
           in db_updates (ID m2)
                (\<lambda>r. r\<lparr>Status := Status m2, LastCheck := LastCheck m2,
                        FailCount := FailCount m2, SuccCount := SuccCount m2,
                        CurrentIP := CurrentIP m2\<rparr>) w2))"


section \<open>Controllers (api.go)\<close>

text \<open>
  A controller takes the decoded JSON body (a body that does not decode is answered
  with 400 before anything else happens) and answers with a status and a value. The
  reload of the scheduler that follows a successful write is not part of the model.
\<close>

datatype 'a Reply = OK 'a | BadRequest string | NotFound string | InternalServerError string

definition CreateMonitor :: "Env \<Rightarrow> MonitorConfig \<Rightarrow> World \<Rightarrow> Monitor Reply \<times> World" where
  "CreateMonitor env input w =
     (if mc_Name input = '''' \<or> mc_Target input = ''''
      then (BadRequest ''Name and Target are required'', w)
      else
        (let monitor0 = ToMonitor input;
             monitor = monitor0\<lparr>CurrentIP := OriginalIP monitor0, Status := ''Normal'',
                                LastCheck := time_now env (trace w)\<rparr>
         in if list_ex (\<lambda>s. scfg_Cron s = '''' \<or> scfg_TargetIP s = '''') (mc_Schedules input)
            then (BadRequest ''Schedule cron and target_ip are required'', w)
            else
              (let (monitor1, w1) =
                     (if CFRecordID monitor = '''' \<and> CFZoneID monitor \<noteq> ''''
                         \<and> CFDomain monitor \<noteq> ''''
                      then
                        (let (r, w') = FetchCloudflareRecordID env monitor w
                         in case r of
                              Inr foundID \<Rightarrow>
                                if foundID \<noteq> '''' then (monitor\<lparr>CFRecordID := foundID\<rparr>, w')
                                else (monitor, w')
                            | Inl e \<Rightarrow> (monitor, w'))
                      else (monitor, w));
                   (created, w2) = db_create monitor1 w1;
                   w3 = w2\<lparr>schedules := schedules w2
                          @ map (\<lambda>s. \<lparr>MonitorID = ID created, Cron = scfg_Cron s,
                                      TargetIP = scfg_TargetIP s\<rparr>) (mc_Schedules input)\<rparr>
               in (OK created, w3))))"

record UpdateInput = MonitorConfig +
  ScheduleEnabled :: "bool option"
  ScheduleHours :: go_int
  ScheduleSwitchIP :: string

definition UpdateMonitor :: "Env \<Rightarrow> nat \<Rightarrow> UpdateInput \<Rightarrow> World \<Rightarrow> Monitor Reply \<times> World" where
  "UpdateMonitor env k input w =
     (if mc_Name input = '''' \<or> mc_Target input = ''''
      then (BadRequest ''Name and Target are required'', w)
      else
        (case db_first k w of
           None \<Rightarrow> (NotFound ''Monitor not found'', w)
         | Some monitor0 \<Rightarrow>
             (let monitor1 = monitor0\<lparr>Name := mc_Name input, AccountName := mc_Account input,
                               Target := mc_Target input, Type := mc_Type input,
                               DNSType := mc_DNSType input, Interval := mc_Interval input,
                               Timeout := mc_Timeout input, Retries := mc_Retries input,
                               RecoveryRetries := mc_RecoveryRetries input,
                               OriginalIP := mc_OriginalIP input,
                               BackupIP := mc_BackupIP input\<rparr>;
                  (monitor2, fetch1) =
                     (if mc_ZoneID input \<noteq> '''' \<and> mc_ZoneID input \<noteq> CFZoneID monitor1
                      then (monitor1\<lparr>CFZoneID := mc_ZoneID input\<rparr>, True)
                      else (monitor1, False));
                  (monitor3, fetch2) =
                     (if mc_Domain input \<noteq> '''' \<and> mc_Domain input \<noteq> CFDomain monitor2
                      then (monitor2\<lparr>CFDomain := mc_Domain input\<rparr>, True)
                      else (monitor2, fetch1));
                  (monitor4, shouldFetchID) =
                     (if mc_RecordID input \<noteq> ''''
                      then (monitor3\<lparr>CFRecordID := mc_RecordID input\<rparr>, False)
                      else if fetch2 then (monitor3\<lparr>CFRecordID := ''''\<rparr>, fetch2)
                      else (monitor3, fetch2));
                  (monitor5, w1) =
                     (if shouldFetchID \<and> CFRecordID monitor4 = '''' then
                        (let (r, w') = FetchCloudflareRecordID env monitor4 w
                         in case r of
                              Inr foundID \<Rightarrow>
                                if foundID \<noteq> '''' then (monitor4\<lparr>CFRecordID := foundID\<rparr>, w')
                                else (monitor4, w')
                            | Inl e \<Rightarrow> (monitor4, w'))
                      else (monitor4, w));
                  monitor = ApplyDefaults monitor5;
                  saved = db_save monitor w1;
                  others = filter (\<lambda>s. MonitorID s \<noteq> ID monitor) (schedules saved)
              in if mc_Schedules input \<noteq> [] then
                   (OK monitor,
                    saved\<lparr>schedules := others
                       @ map (\<lambda>s. \<lparr>MonitorID = ID monitor, Cron = scfg_Cron s,
                                   TargetIP = scfg_TargetIP s\<rparr>) (mc_Schedules input)\<rparr>)
                 else
                   (case ScheduleEnabled input of
                      None \<Rightarrow> (OK monitor, saved)
                    | Some False \<Rightarrow> (OK monitor, saved\<lparr>schedules := others\<rparr>)
                    | Some True \<Rightarrow>
                        if ScheduleSwitchIP input = ''''
                        then (BadRequest ''schedule_switch_ip is required'', w1)
                        else if ScheduleHours input <s 0 \<or> 23 <s ScheduleHours input
                        then (InternalServerError
                               ''Failed to update monitor: schedule_hours must be between 0 and 23'', w1)
                        else
                          (OK monitor,
                           saved\<lparr>schedules := others
                              @ [\<lparr>MonitorID = ID monitor,
                                  Cron = ''0 '' @ Itoa (ScheduleHours input) @ '' * * *'',
                                  TargetIP = ScheduleSwitchIP input\<rparr>]\<rparr>)))))"

definition RestoreMonitor :: "Env \<Rightarrow> nat \<Rightarrow> World \<Rightarrow> Monitor Reply \<times> World" where
  "RestoreMonitor env k w =
     (case db_first k w of
        None \<Rightarrow> (NotFound ''Monitor not found'', w)
      | Some monitor0 \<Rightarrow>
          (let monitor = monitor0\<lparr>Status := ''Normal'', FailCount := 0, SuccCount := 0,
                                  CurrentIP := OriginalIP monitor0,
                                  LastCheck := time_now env (trace w)\<rparr>;
               (ok, m1, w1) = UpdateCloudflareDNS env monitor (OriginalIP monitor) w;
               w2 = (if ok then SendNotification (MANUAL_RECOVERY (Name m1) (OriginalIP m1)) w1
                     else w1)
           in (OK m1, db_save m1 w2)))"


section \<open>Seeding (database.go)\<close>

text \<open>The body of the loop of \<open>SeedMonitors\<close>, for one monitor of the configuration file.\<close>

definition seed_monitor :: "Env \<Rightarrow> MonitorConfig \<Rightarrow> World \<Rightarrow> World" where
  "seed_monitor env mc w =
     (let configMonitor = ToMonitor mc
      in case db_first_by_name (mc_Name mc) w of
           Some existing \<Rightarrow>
             (let w1 = db_updates (ID existing)
                         (\<lambda>r. r\<lparr>AccountName := AccountName configMonitor,
                                 Target := Target configMonitor,
                                 Type := Type configMonitor,
                                 DNSType := DNSType configMonitor,
                                 Interval := Interval configMonitor,
                                 Timeout := Timeout configMonitor,
                                 Retries := Retries configMonitor,
                                 RecoveryRetries := RecoveryRetries configMonitor,
                                 OriginalIP := OriginalIP configMonitor,
                                 BackupIP := BackupIP configMonitor,
                                 CFZoneID := CFZoneID configMonitor,
                                 CFRecordID := CFRecordID configMonitor,
                                 CFDomain := CFDomain configMonitor\<rparr>) w
              in w1\<lparr>schedules := filter (\<lambda>s. MonitorID s \<noteq> ID existing) (schedules w1)
                       @ map (\<lambda>sc. \<lparr>MonitorID = ID existing, Cron = scfg_Cron sc,
                                    TargetIP = scfg_TargetIP sc\<rparr>) (mc_Schedules mc)\<rparr>)
         | None \<Rightarrow>
             (let (created, w1) =
                    db_create (configMonitor\<lparr>Status := ''Normal'',
                                 LastCheck := time_now env (trace w),
                                 CurrentIP := OriginalIP configMonitor\<rparr>) w
              in w1\<lparr>schedules := schedules w1
                       @ map (\<lambda>sc. \<lparr>MonitorID = ID created, Cron = scfg_Cron sc,
                                    TargetIP = scfg_TargetIP sc\<rparr>) (mc_Schedules mc)\<rparr>))"

text \<open>
  \<open>SeedMonitors\<close> over \<open>AppConfig.Monitors\<close> (the second argument), in their order; an
  empty list returns at once, which is what the fold does.
\<close>

definition SeedMonitors :: "Env \<Rightarrow> MonitorConfig list \<Rightarrow> World \<Rightarrow> World" where
  "SeedMonitors env monitors w = fold (seed_monitor env) monitors w"


section \<open>A concrete monitor and environment\<close>

text \<open>
  The monitor of the end-to-end scenarios: failure threshold 3, recovery threshold 2,
  primary \<open>1.1.1.1\<close>, backup \<open>2.2.2.2\<close>, probed over HTTPS; one account with a bearer
  token; a provider that answers every request with 200 and one matching record.
\<close>

definition scn_monitor :: Monitor where
  "scn_monitor =
     \<lparr> ID = 1, Name = ''M1'', AccountName = ''default'', Target = ''https://example.com'',
       Type = ''https'', DNSType = ''A'', Interval = 60, Timeout = 5, Retries = 3,
       RecoveryRetries = 2, Status = ''Normal'', LastCheck = 0, FailCount = 0,
       SuccCount = 0, CurrentIP = ''1.1.1.1'', BackupIP = ''2.2.2.2'',
       OriginalIP = ''1.1.1.1'', CFZoneID = ''zone-1'', CFRecordID = ''rec-1'',
       CFDomain = ''example.com'' \<rparr>"

definition scn_account :: AccountConfig where
  "scn_account =
     \<lparr> acc_Name = ''default'', ApiToken = ''tok'', Email = ''ops@example.com'',
       ApiKey = ''key'' \<rparr>"

definition scn_env :: Env where
  "scn_env =
     \<lparr> Accounts = [scn_account], GOOS = ''linux'', url_ok = (\<lambda>u. True),
       cf_do = (\<lambda>tr req. Response 200 (Envelope True [] [''rec-1''])),
       cmd_run = (\<lambda>tr ctx cmd. False),
       probe_do = (\<lambda>tr cl url. None),
       time_now = length,
       SplitHostPort = (\<lambda>a. if a = ''example.com:443'' then Some (''example.com'', ''443'')
                              else None),
       JoinHostPort = (\<lambda>h p. h @ '':'' @ p) \<rparr>"

text \<open>The same environment with a provider that rejects every request.\<close>

definition scn_env_rejecting :: Env where
  "scn_env_rejecting = scn_env\<lparr>cf_do := (\<lambda>tr req. Response 403 Malformed)\<rparr>"

definition scn_world :: "Monitor \<Rightarrow> World" where
  "scn_world m = \<lparr> db = [m], schedules = [], httpClients = Map.empty, trace = [] \<rparr>"


section \<open>Notions used in the statements and proofs\<close>

text \<open>The scenario's monitor after a failover, and an environment whose probes succeed.\<close>

definition scn_monitor_down :: Monitor where
  "scn_monitor_down = scn_monitor\<lparr>Status := ''Down'', CurrentIP := ''2.2.2.2''\<rparr>"

definition scn_env_up :: Env where
  "scn_env_up = scn_env\<lparr>probe_do := (\<lambda>tr cl url. Some 200)\<rparr>"

text \<open>The second half of \<open>UpdateCloudflareDNS\<close>, from the lookup of the account on.\<close>

definition patch_record :: "Env \<Rightarrow> Monitor \<Rightarrow> string \<Rightarrow> World \<Rightarrow> bool \<times> Monitor \<times> World" where
  "patch_record env m1 targetIP w1 =
     (case GetAccountConfig (Accounts env) (AccountName m1) of
        None \<Rightarrow> (False, m1, w1)
      | Some acc \<Rightarrow>
          (let url = ''https://api.cloudflare.com/client/v4/zones/'' @ CFZoneID m1
                     @ ''/dns_records/'' @ CFRecordID m1;
               dnsType = (if DNSType m1 = '''' then ''A'' else DNSType m1);
               payload = [(''content'', targetIP), (''name'', CFDomain m1), (''type'', dnsType)]
           in case newCloudflareRequest env ''PATCH'' url payload acc of
                None \<Rightarrow> (False, m1, w1)
              | Some req \<Rightarrow>
                  (case cf_do env (trace w1) req of
                     TransportError \<Rightarrow> (False, m1, emit (CfRequest req) w1)
                   | Response code body \<Rightarrow>
                       (200 \<le> code \<and> code < 300, m1, emit (CfRequest req) w1))))"

text \<open>The credential headers of a request for an account.\<close>

definition auth_headers :: "AccountConfig \<Rightarrow> (string \<times> string) list" where
  "auth_headers acc =
     (if ApiToken acc \<noteq> [] then [(''Authorization'', ''Bearer '' @ ApiToken acc)]
      else [(''X-Auth-Email'', Email acc), (''X-Auth-Key'', ApiKey acc)])
     @ [(''Content-Type'', ''application/json'')]"

text \<open>A request that carries the credentials \<open>GetAccountConfig\<close> selects for the monitor.\<close>

definition auth_ok :: "Env \<Rightarrow> Monitor \<Rightarrow> Request \<Rightarrow> bool" where
  "auth_ok env m req \<longleftrightarrow>
     (\<exists>acc. GetAccountConfig (Accounts env) (AccountName m) = Some acc
        \<and> req_headers req = auth_headers acc)"


text \<open>The verdict of the DNS update that a handler issues.\<close>

definition dns_ack :: "Env \<Rightarrow> Monitor \<Rightarrow> string \<Rightarrow> World \<Rightarrow> bool" where
  "dns_ack env m ip w = fst (UpdateCloudflareDNS env m ip w)"

text \<open>A write that leaves a row alone or fills in its record id.\<close>

definition rid_only :: "(Monitor \<Rightarrow> Monitor) \<Rightarrow> bool" where
  "rid_only g \<longleftrightarrow> g = (\<lambda>r. r) \<or> (\<exists>x. x \<noteq> [] \<and> g = (\<lambda>r. r\<lparr>CFRecordID := x\<rparr>))"

text \<open>What the probe of a check of monitor \<open>k\<close> in world \<open>w\<close> reports.\<close>

definition observed :: "Env \<Rightarrow> nat \<Rightarrow> World \<Rightarrow> bool" where
  "observed env k w =
     (case db_first k w of None \<Rightarrow> False | Some r \<Rightarrow> fst (probe env (ApplyDefaults r) w))"

text \<open>The monitor that the handler of a check of monitor \<open>k\<close> returns.\<close>

definition handled :: "Env \<Rightarrow> Monitor \<Rightarrow> World \<Rightarrow> Monitor \<times> World" where
  "handled env r w =
     (let m = ApplyDefaults r; (isUp, w1) = probe env m w
      in if isUp then HandleSuccess env m w1 else HandleFailure env m w1)"

text \<open>The operations of the engine on one monitor, and a run of them.\<close>

datatype EngineOp = Check | Rotate string | Restore

fun engine_step :: "Env \<Rightarrow> nat \<Rightarrow> EngineOp \<Rightarrow> World \<Rightarrow> World" where
  "engine_step env k Check w = CheckMonitor env k w"
| "engine_step env k (Rotate ip) w = ScheduledSwitch env k ip w"
| "engine_step env k Restore w = snd (RestoreMonitor env k w)"

definition engine_run :: "Env \<Rightarrow> nat \<Rightarrow> EngineOp list \<Rightarrow> World \<Rightarrow> World" where
  "engine_run env k ops w = fold (engine_step env k) ops w"

text \<open>An entry of the configuration file for a monitor that is not in the database.\<close>

definition scn_config :: MonitorConfig where
  "scn_config =
     \<lparr> mc_Name = ''M2'', mc_Account = ''default'', mc_Domain = ''www.example.com'',
       mc_ZoneID = ''zone-1'', mc_RecordID = [], mc_Type = ''ping'', mc_DNSType = [],
       mc_Target = ''www.example.com'', mc_OriginalIP = ''4.4.4.4'', mc_BackupIP = ''5.5.5.5'',
       mc_Interval = 0, mc_Timeout = 0, mc_Retries = 0, mc_RecoveryRetries = 0,
       mc_Schedules = [] \<rparr>"


text \<open>The world after \<open>n\<close> successive periodic checks of monitor \<open>k\<close>.\<close>

fun checks :: "Env \<Rightarrow> nat \<Rightarrow> nat \<Rightarrow> World \<Rightarrow> World" where
  "checks env k 0 w = w"
| "checks env k (Suc n) w = CheckMonitor env k (checks env k n w)"

text \<open>The results that the probes of the first \<open>n\<close> checks delivered, oldest first.\<close>

definition results :: "Env \<Rightarrow> nat \<Rightarrow> nat \<Rightarrow> World \<Rightarrow> bool list" where
  "results env k n w = map (\<lambda>i. observed env k (checks env k i w)) [0..<n]"

text \<open>The status of monitor \<open>k\<close> after \<open>n\<close> checks.\<close>

definition status_after :: "Env \<Rightarrow> nat \<Rightarrow> nat \<Rightarrow> World \<Rightarrow> string" where
  "status_after env k n w =
     (case db_first k (checks env k n w) of None \<Rightarrow> [] | Some r \<Rightarrow> Status r)"

text \<open>The number of results equal to \<open>b\<close> at the end of a list of results.\<close>

definition run_length :: "bool \<Rightarrow> bool list \<Rightarrow> nat" where
  "run_length b xs = length (takeWhile (\<lambda>x. x = b) (rev xs))"

text \<open>
  The counters agree with the results delivered so far: while \<open>Normal\<close>, the failures
  counted are the failures at the end of the results and no success is counted; while
  \<open>Down\<close>, the other way round.
\<close>

definition counts_ok :: "Monitor \<Rightarrow> bool list \<Rightarrow> bool" where
  "counts_ok r xs \<longleftrightarrow>
     (Status r = ''Normal'' \<or> Status r = ''Down'')
     \<and> (Status r = ''Normal'' \<longrightarrow> FailCount r = of_nat (run_length False xs) \<and> SuccCount r = 0)
     \<and> (Status r = ''Down'' \<longrightarrow> SuccCount r = of_nat (run_length True xs) \<and> FailCount r = 0)"


text \<open>
  The entry of the configuration file for the monitor of the scenarios, as the
  documentation writes such entries: without a record id.
\<close>

definition scn_config_M1 :: MonitorConfig where
  "scn_config_M1 =
     \<lparr> mc_Name = ''M1'', mc_Account = ''default'', mc_Domain = ''example.com'',
       mc_ZoneID = ''zone-1'', mc_RecordID = [], mc_Type = ''https'', mc_DNSType = ''A'',
       mc_Target = ''https://example.com'', mc_OriginalIP = ''1.1.1.1'',
       mc_BackupIP = ''2.2.2.2'', mc_Interval = 60, mc_Timeout = 5, mc_Retries = 3,
       mc_RecoveryRetries = 2, mc_Schedules = [] \<rparr>"

text \<open>The row that \<open>UpdateMonitor\<close> saves, and the world after its lookup of the record.\<close>

definition updated_row :: "Env \<Rightarrow> Monitor \<Rightarrow> UpdateInput \<Rightarrow> World \<Rightarrow> Monitor \<times> World" where
  "updated_row env monitor0 input w =
             (let monitor1 = monitor0\<lparr>Name := mc_Name input, AccountName := mc_Account input,
                               Target := mc_Target input, Type := mc_Type input,
                               DNSType := mc_DNSType input, Interval := mc_Interval input,
                               Timeout := mc_Timeout input, Retries := mc_Retries input,
                               RecoveryRetries := mc_RecoveryRetries input,
                               OriginalIP := mc_OriginalIP input,
                               BackupIP := mc_BackupIP input\<rparr>;
                  (monitor2, fetch1) =
                     (if mc_ZoneID input \<noteq> [] \<and> mc_ZoneID input \<noteq> CFZoneID monitor1
                      then (monitor1\<lparr>CFZoneID := mc_ZoneID input\<rparr>, True)
                      else (monitor1, False));
                  (monitor3, fetch2) =
                     (if mc_Domain input \<noteq> [] \<and> mc_Domain input \<noteq> CFDomain monitor2
                      then (monitor2\<lparr>CFDomain := mc_Domain input\<rparr>, True)
                      else (monitor2, fetch1));
                  (monitor4, shouldFetchID) =
                     (if mc_RecordID input \<noteq> []
                      then (monitor3\<lparr>CFRecordID := mc_RecordID input\<rparr>, False)
                      else if fetch2 then (monitor3\<lparr>CFRecordID := []\<rparr>, fetch2)
                      else (monitor3, fetch2));
                  (monitor5, w1) =
                     (if shouldFetchID \<and> CFRecordID monitor4 = [] then
                        (let (r, w') = FetchCloudflareRecordID env monitor4 w
                         in case r of
                              Inr foundID \<Rightarrow>
                                if foundID \<noteq> [] then (monitor4\<lparr>CFRecordID := foundID\<rparr>, w')
                                else (monitor4, w')
                            | Inl e \<Rightarrow> (monitor4, w'))
                      else (monitor4, w))
              in (ApplyDefaults monitor5, w1))"


text \<open>The context and the command line of the attempts of \<open>CheckPing\<close>.\<close>

definition ping_ctx :: "go_int \<Rightarrow> Context" where
  "ping_ctx timeout = \<lparr> ctx_timeout = (timeout + 2) * 1000000000 \<rparr>"

definition ping_cmd :: "Env \<Rightarrow> string \<Rightarrow> go_int \<Rightarrow> string list" where
  "ping_cmd env host timeout =
     (if GOOS env = ''windows''
      then [''ping'', ''-n'', ''1'', ''-w'', Itoa (timeout * 1000), host]
      else [''ping'', ''-c'', ''1'', ''-W'', Itoa timeout, host])"

text \<open>
  The trace of \<open>CheckPing\<close> when \<open>i\<close> attempts have failed, each followed by its
  pause: the context is made, then come the attempts.
\<close>

definition ping_failed :: "Env \<Rightarrow> string \<Rightarrow> go_int \<Rightarrow> World \<Rightarrow> nat \<Rightarrow> Event list" where
  "ping_failed env host timeout w i =
     trace w @ [WithTimeout (ping_ctx timeout)]
       @ concat (replicate i [Exec (ping_ctx timeout) (ping_cmd env host timeout), Sleep 500])"


text \<open>
  Every client of the cache sits under the key made of its own pinned address and of a
  timeout that is not negative (the timeouts that \<open>CheckMonitor\<close> passes are positive).
\<close>

definition cache_ok :: "World \<Rightarrow> bool" where
  "cache_ok w \<longleftrightarrow>
     (\<forall>key c. httpClients w key = Some c \<longrightarrow>
        (\<exists>t. 0 \<le>s t \<and> key = cl_forceIP c @ ''-'' @ Itoa t))"

text \<open>The URL that \<open>CheckHTTP\<close> requests for a configured target.\<close>

definition probe_url :: "string \<Rightarrow> string" where
  "probe_url target = (if \<not> prefix ''http'' target then ''http://'' @ target else target)"

text \<open>A monitor without primary address, during a failover.\<close>

definition scn_monitor_unpinned :: Monitor where
  "scn_monitor_unpinned = scn_monitor_down\<lparr>OriginalIP := []\<rparr>"


section \<open>Auxiliary facts\<close>

lemma find_Some_holds: "find P xs = Some a \<Longrightarrow> P a"
  by (induction xs) (auto split: if_splits)

lemma find_map_upd:
  assumes "\<And>r. ID r = j \<Longrightarrow> ID (f r) = j"
  shows "find (\<lambda>r. ID r = k) (map (\<lambda>r. if ID r = j then f r else r) xs)
         = map_option (\<lambda>r. if ID r = j then f r else r) (find (\<lambda>r. ID r = k) xs)"
  using assms by (induction xs) auto

lemma db_first_ID: "db_first k w = Some m \<Longrightarrow> ID m = k"
  unfolding db_first_def by (drule find_Some_holds)

lemma db_first_db_updates:
  assumes "\<And>r. ID r = j \<Longrightarrow> ID (f r) = j"
  shows "db_first k (db_updates j f w) = map_option (\<lambda>r. if k = j then f r else r) (db_first k w)"
proof -
  have "db_first k (db_updates j f w)
        = map_option (\<lambda>r. if ID r = j then f r else r) (db_first k w)"
    using assms by (simp add: db_first_def db_updates_def find_map_upd)
  also have "\<dots> = map_option (\<lambda>r. if k = j then f r else r) (db_first k w)"
    by (cases "db_first k w") (auto dest: db_first_ID)
  finally show ?thesis .
qed

lemma db_first_cong: "db w' = db w \<Longrightarrow> db_first k w' = db_first k w"
  by (simp add: db_first_def)

lemma emit_fields [simp]:
  "db (emit e w) = db w" "schedules (emit e w) = schedules w"
  "httpClients (emit e w) = httpClients w" "trace (emit e w) = trace w @ [e]"
  by (simp_all add: emit_def)

lemma db_first_emit [simp]: "db_first k (emit e w) = db_first k w"
  by (simp add: db_first_def)

lemma db_updates_fields [simp]:
  "schedules (db_updates j f w) = schedules w"
  "httpClients (db_updates j f w) = httpClients w" "trace (db_updates j f w) = trace w"
  by (simp_all add: db_updates_def)

lemma ApplyDefaults_fields [simp]:
  "ID (ApplyDefaults m) = ID m" "Name (ApplyDefaults m) = Name m"
  "AccountName (ApplyDefaults m) = AccountName m" "Target (ApplyDefaults m) = Target m"
  "Status (ApplyDefaults m) = Status m" "LastCheck (ApplyDefaults m) = LastCheck m"
  "FailCount (ApplyDefaults m) = FailCount m" "SuccCount (ApplyDefaults m) = SuccCount m"
  "CurrentIP (ApplyDefaults m) = CurrentIP m" "BackupIP (ApplyDefaults m) = BackupIP m"
  "OriginalIP (ApplyDefaults m) = OriginalIP m" "CFZoneID (ApplyDefaults m) = CFZoneID m"
  "CFRecordID (ApplyDefaults m) = CFRecordID m" "CFDomain (ApplyDefaults m) = CFDomain m"
  by (simp_all add: ApplyDefaults_def Let_def)

lemma ApplyDefaults_thresholds:
  "Retries (ApplyDefaults m) = (if Retries m \<le>s 0 then 3 else Retries m)"
  "RecoveryRetries (ApplyDefaults m) = (if RecoveryRetries m \<le>s 0 then 2 else RecoveryRetries m)"
  "Timeout (ApplyDefaults m) = (if Timeout m \<le>s 0 then 5 else Timeout m)"
  "Interval (ApplyDefaults m) = (if Interval m \<le>s 0 then 60 else Interval m)"
  "Type (ApplyDefaults m) = (if Type m = [] then ''ping'' else Type m)"
  "DNSType (ApplyDefaults m) = (if DNSType m = [] then ''A'' else DNSType m)"
  by (simp_all add: ApplyDefaults_def Let_def)

subsection \<open>The two phases of \<open>UpdateCloudflareDNS\<close>\<close>

lemma Update_phases:
  "UpdateCloudflareDNS env m ip w =
     (if CFZoneID m = [] \<or> ip = [] then (False, m, w)
      else if CFRecordID m \<noteq> [] then patch_record env m ip w
      else (case FetchCloudflareRecordID env m w of
              (Inr newID, w') \<Rightarrow>
                 if newID \<noteq> []
                 then patch_record env (m\<lparr>CFRecordID := newID\<rparr>) ip
                        (db_updates (ID m) (\<lambda>r. r\<lparr>CFRecordID := newID\<rparr>) w')
                 else (False, m, w')
            | (Inl e, w') \<Rightarrow> (False, m, w')))"
  by (simp add: UpdateCloudflareDNS_def patch_record_def Let_def split: prod.splits sum.splits)

lemma newCloudflareRequest_Some:
  "newCloudflareRequest env meth url body acc = Some req \<Longrightarrow>
   req = \<lparr>req_method = meth, req_url = url, req_headers = auth_headers acc, req_body = body\<rparr>"
  by (auto simp: newCloudflareRequest_def auth_headers_def split: if_splits)

lemma auth_okI:
  "GetAccountConfig (Accounts env) (AccountName m) = Some acc \<Longrightarrow>
   newCloudflareRequest env meth url body acc = Some req \<Longrightarrow> auth_ok env m req"
  unfolding auth_ok_def by (auto dest: newCloudflareRequest_Some)

lemma auth_ok_cong: "AccountName m' = AccountName m \<Longrightarrow> auth_ok env m' req = auth_ok env m req"
  by (simp add: auth_ok_def)

lemma Fetch_cases:
  assumes "FetchCloudflareRecordID env m w = (r, w1)"
  shows "(w1 = w \<and> (\<exists>e. r = Inl e))
         \<or> (\<exists>req. w1 = emit (CfRequest req) w \<and> auth_ok env m req \<and> req_method req = ''GET'')"
proof (cases "GetAccountConfig (Accounts env) (AccountName m)")
  case None
  with assms show ?thesis by (auto simp: FetchCloudflareRecordID_def)
next
  case (Some acc)
  let ?url = "''https://api.cloudflare.com/client/v4/zones/'' @ CFZoneID m
                     @ ''/dns_records?name='' @ CFDomain m @ ''&type=''
                     @ (if DNSType m = '''' then ''A'' else DNSType m)"
  show ?thesis
  proof (cases "newCloudflareRequest env ''GET'' ?url [] acc")
    case None
    with assms Some show ?thesis by (auto simp: FetchCloudflareRecordID_def Let_def)
  next
    case (Some req)
    have "auth_ok env m req" using \<open>GetAccountConfig _ _ = Some acc\<close> Some by (rule auth_okI)
    moreover have "req_method req = ''GET''" using newCloudflareRequest_Some[OF Some] by simp
    moreover have "w1 = emit (CfRequest req) w"
      using assms Some \<open>GetAccountConfig _ _ = Some acc\<close>
      by (auto simp: FetchCloudflareRecordID_def Let_def
               split: HttpResult.splits Body.splits list.splits if_splits)
    ultimately show ?thesis by blast
  qed
qed

lemma patch_cases:
  assumes "patch_record env m ip w = (ok, m1, w1)"
  shows "m1 = m"
    and "(w1 = w \<and> \<not> ok)
         \<or> (\<exists>req. w1 = emit (CfRequest req) w \<and> auth_ok env m req \<and> req_method req = ''PATCH''
               \<and> req_body req = [(''content'', ip), (''name'', CFDomain m),
                                  (''type'', if DNSType m = [] then ''A'' else DNSType m)]
               \<and> ok = (case cf_do env (trace w) req of TransportError \<Rightarrow> False
                        | Response code body \<Rightarrow> 200 \<le> code \<and> code < 300))"
proof -
  show "m1 = m" using assms
    by (auto simp: patch_record_def Let_def split: option.splits HttpResult.splits)
  show "(w1 = w \<and> \<not> ok)
         \<or> (\<exists>req. w1 = emit (CfRequest req) w \<and> auth_ok env m req \<and> req_method req = ''PATCH''
               \<and> req_body req = [(''content'', ip), (''name'', CFDomain m),
                                  (''type'', if DNSType m = [] then ''A'' else DNSType m)]
               \<and> ok = (case cf_do env (trace w) req of TransportError \<Rightarrow> False
                        | Response code body \<Rightarrow> 200 \<le> code \<and> code < 300))"
  proof (cases "GetAccountConfig (Accounts env) (AccountName m)")
    case None
    with assms show ?thesis by (auto simp: patch_record_def)
  next
    case (Some acc)
    let ?url = "''https://api.cloudflare.com/client/v4/zones/'' @ CFZoneID m
                     @ ''/dns_records/'' @ CFRecordID m"
    let ?payload = "[(''content'', ip), (''name'', CFDomain m),
                     (''type'', if DNSType m = [] then ''A'' else DNSType m)]"
    show ?thesis
    proof (cases "newCloudflareRequest env ''PATCH'' ?url ?payload acc")
      case None
      with assms Some show ?thesis by (auto simp: patch_record_def Let_def)
    next
      case (Some req)
      have "auth_ok env m req" using \<open>GetAccountConfig _ _ = Some acc\<close> Some by (rule auth_okI)
      moreover have "req_method req = ''PATCH''" "req_body req = ?payload"
        using newCloudflareRequest_Some[OF Some] by simp_all
      moreover have "w1 = emit (CfRequest req) w
          \<and> ok = (case cf_do env (trace w) req of TransportError \<Rightarrow> False
                        | Response code body \<Rightarrow> 200 \<le> code \<and> code < 300)"
        using assms Some \<open>GetAccountConfig _ _ = Some acc\<close>
        by (auto simp: patch_record_def Let_def split: HttpResult.splits)
      ultimately show ?thesis by blast
    qed
  qed
qed


lemma db_db_updates_emit [simp]: "db (db_updates j f (emit e w)) = db (db_updates j f w)"
  by (simp add: db_updates_def)

text \<open>What a call of \<open>UpdateCloudflareDNS\<close> can do, in one statement.\<close>

lemma Update_summary:
  assumes U: "UpdateCloudflareDNS env m ip w = (ok, m1, w1)"
  shows "\<exists>reqs. trace w1 = trace w @ map CfRequest reqs
           \<and> (\<forall>req\<in>set reqs. auth_ok env m req)
           \<and> (ok \<longrightarrow> reqs \<noteq> [] \<and> req_method (last reqs) = ''PATCH''
                    \<and> req_body (last reqs) = [(''content'', ip), (''name'', CFDomain m),
                          (''type'', if DNSType m = [] then ''A'' else DNSType m)])"
    and "schedules w1 = schedules w" and "httpClients w1 = httpClients w"
    and "db w1 = (if CFRecordID m = [] \<and> CFRecordID m1 \<noteq> []
                  then db (db_updates (ID m) (\<lambda>r. r\<lparr>CFRecordID := CFRecordID m1\<rparr>) w)
                  else db w)"
    and "m1 = m\<lparr>CFRecordID := CFRecordID m1\<rparr>"
    and "CFRecordID m \<noteq> [] \<Longrightarrow> m1 = m"
    and "ok \<Longrightarrow> CFZoneID m \<noteq> [] \<and> ip \<noteq> [] \<and> CFRecordID m1 \<noteq> []"
proof -
  let ?body = "[(''content'', ip), (''name'', CFDomain m),
                (''type'', if DNSType m = [] then ''A'' else DNSType m)]"
  let ?R = "\<lambda>reqs. trace w1 = trace w @ map CfRequest reqs
           \<and> (\<forall>req\<in>set reqs. auth_ok env m req)
           \<and> (ok \<longrightarrow> reqs \<noteq> [] \<and> req_method (last reqs) = ''PATCH''
                    \<and> req_body (last reqs) = ?body)"
  let ?D = "db w1 = (if CFRecordID m = [] \<and> CFRecordID m1 \<noteq> []
                  then db (db_updates (ID m) (\<lambda>r. r\<lparr>CFRecordID := CFRecordID m1\<rparr>) w)
                  else db w)"
  let ?all = "(\<exists>reqs. ?R reqs) \<and> schedules w1 = schedules w \<and> httpClients w1 = httpClients w
        \<and> ?D \<and> m1 = m\<lparr>CFRecordID := CFRecordID m1\<rparr> \<and> (CFRecordID m \<noteq> [] \<longrightarrow> m1 = m)
        \<and> (ok \<longrightarrow> CFZoneID m \<noteq> [] \<and> ip \<noteq> [] \<and> CFRecordID m1 \<noteq> [])"
  have combine: "\<And>reqs. ?R reqs \<Longrightarrow> schedules w1 = schedules w \<Longrightarrow> httpClients w1 = httpClients w
        \<Longrightarrow> ?D \<Longrightarrow> m1 = m\<lparr>CFRecordID := CFRecordID m1\<rparr> \<Longrightarrow> (CFRecordID m \<noteq> [] \<longrightarrow> m1 = m)
        \<Longrightarrow> (ok \<longrightarrow> CFZoneID m \<noteq> [] \<and> ip \<noteq> [] \<and> CFRecordID m1 \<noteq> []) \<Longrightarrow> ?all"
    by blast
  have all: ?all
  proof (cases "CFZoneID m = [] \<or> ip = []")
    case True
    with U have "\<not> ok" "m1 = m" "w1 = w" by (simp_all add: Update_phases)
    thus ?thesis by (intro combine[of "[]"]) simp_all
  next
    case nz: False
    show ?thesis
    proof (cases "CFRecordID m = []")
      case False
      with U nz have P: "patch_record env m ip w = (ok, m1, w1)" by (simp add: Update_phases)
      from patch_cases(1)[OF P] have m1: "m1 = m" .
      from patch_cases(2)[OF P] show ?thesis
      proof (elim disjE exE conjE)
        assume "w1 = w" "\<not> ok"
        thus ?thesis using m1 False by (intro combine[of "[]"]) simp_all
      next
        fix req assume "w1 = emit (CfRequest req) w" "auth_ok env m req"
          "req_method req = ''PATCH''" "req_body req = ?body"
        thus ?thesis using m1 False nz by (intro combine[of "[req]"]) simp_all
      qed
    next
      case True
      obtain r w' where F: "FetchCloudflareRecordID env m w = (r, w')"
        by (cases "FetchCloudflareRecordID env m w")
      from Fetch_cases[OF F] obtain pre where
        pre: "trace w' = trace w @ map CfRequest pre" "\<forall>req\<in>set pre. auth_ok env m req"
          "db w' = db w" "schedules w' = schedules w" "httpClients w' = httpClients w"
      proof (elim disjE exE conjE)
        assume "w' = w" thus ?thesis using that[of "[]"] by simp
      next
        fix req assume "w' = emit (CfRequest req) w" "auth_ok env m req"
        thus ?thesis using that[of "[req]"] by simp
      qed
      show ?thesis
      proof (cases "\<exists>newID. r = Inr newID \<and> newID \<noteq> []")
        case False
        with U nz True F have "\<not> ok" "m1 = m" "w1 = w'"
          by (auto simp: Update_phases split: sum.splits if_splits)
        thus ?thesis using pre True by (intro combine[of pre]) simp_all
      next
        case True': True
        then obtain newID where r: "r = Inr newID" "newID \<noteq> []" by blast
        let ?m = "m\<lparr>CFRecordID := newID\<rparr>"
        let ?w = "db_updates (ID m) (\<lambda>r. r\<lparr>CFRecordID := newID\<rparr>) w'"
        from U nz True F r have P: "patch_record env ?m ip ?w = (ok, m1, w1)"
          by (simp add: Update_phases)
        from patch_cases(1)[OF P] have m1: "m1 = ?m" .
        have dbw: "db ?w = db (db_updates (ID m) (\<lambda>r. r\<lparr>CFRecordID := newID\<rparr>) w)"
          using pre(3) by (simp add: db_updates_def)
        have ao: "\<And>req. auth_ok env ?m req = auth_ok env m req" by (simp add: auth_ok_def)
        from patch_cases(2)[OF P] show ?thesis
        proof (elim disjE exE conjE)
          assume "w1 = ?w" "\<not> ok"
          thus ?thesis using m1 True r pre dbw by (intro combine[of pre]) simp_all
        next
          fix req assume "w1 = emit (CfRequest req) ?w" "auth_ok env ?m req"
            "req_method req = ''PATCH''"
            "req_body req = [(''content'', ip), (''name'', CFDomain ?m),
                                  (''type'', if DNSType ?m = [] then ''A'' else DNSType ?m)]"
          thus ?thesis using m1 True r pre dbw nz ao by (intro combine[of "pre @ [req]"]) simp_all
        qed
      qed
    qed
  qed
  from all show "\<exists>reqs. ?R reqs" by blast
  from all show "schedules w1 = schedules w" by blast
  from all show "httpClients w1 = httpClients w" by blast
  from all show ?D by blast
  from all show "m1 = m\<lparr>CFRecordID := CFRecordID m1\<rparr>" by blast
  from all show "CFRecordID m \<noteq> [] \<Longrightarrow> m1 = m" by blast
  from all show "ok \<Longrightarrow> CFZoneID m \<noteq> [] \<and> ip \<noteq> [] \<and> CFRecordID m1 \<noteq> []" by blast
qed

lemma Update_db_first:
  assumes "UpdateCloudflareDNS env m ip w = (ok, m1, w1)"
  shows "db_first k w1 =
         map_option (\<lambda>r. if k = ID m \<and> CFRecordID m = [] \<and> CFRecordID m1 \<noteq> []
                         then r\<lparr>CFRecordID := CFRecordID m1\<rparr> else r) (db_first k w)"
proof (cases "CFRecordID m = [] \<and> CFRecordID m1 \<noteq> []")
  case True
  with Update_summary(4)[OF assms]
  have "db w1 = db (db_updates (ID m) (\<lambda>r. r\<lparr>CFRecordID := CFRecordID m1\<rparr>) w)" by simp
  hence "db_first k w1 = db_first k (db_updates (ID m) (\<lambda>r. r\<lparr>CFRecordID := CFRecordID m1\<rparr>) w)"
    by (rule db_first_cong)
  also have "\<dots> = map_option (\<lambda>r. if k = ID m then r\<lparr>CFRecordID := CFRecordID m1\<rparr> else r)
                      (db_first k w)"
    by (rule db_first_db_updates) simp
  finally show ?thesis using True by simp
next
  case False
  with Update_summary(4)[OF assms] have "db w1 = db w" by auto
  hence "db_first k w1 = db_first k w" by (rule db_first_cong)
  thus ?thesis using False by (cases "db_first k w") auto
qed


lemma GetAccountConfig_cases:
  "(accs = [] \<longrightarrow> GetAccountConfig accs n = None)
   \<and> (find (\<lambda>a. acc_Name a = n) accs = None \<and> accs \<noteq> []
        \<longrightarrow> GetAccountConfig accs n = Some (hd accs))
   \<and> (\<forall>a. find (\<lambda>a. acc_Name a = n) accs = Some a
        \<longrightarrow> GetAccountConfig accs n = Some a \<and> acc_Name a = n)"
  by (cases accs) (auto simp: GetAccountConfig_def dest: find_Some_holds)

lemma Update_keeps:
  assumes U: "UpdateCloudflareDNS env m ip w = (ok, m1, w1)"
  shows "ID m1 = ID m" "Name m1 = Name m" "Status m1 = Status m" "CurrentIP m1 = CurrentIP m"
    "OriginalIP m1 = OriginalIP m" "BackupIP m1 = BackupIP m" "FailCount m1 = FailCount m"
    "SuccCount m1 = SuccCount m" "Retries m1 = Retries m" "RecoveryRetries m1 = RecoveryRetries m"
    "LastCheck m1 = LastCheck m"
proof -
  obtain x where "m1 = m\<lparr>CFRecordID := x\<rparr>" using Update_summary(5)[OF U] by blast
  thus "ID m1 = ID m" "Name m1 = Name m" "Status m1 = Status m" "CurrentIP m1 = CurrentIP m"
    "OriginalIP m1 = OriginalIP m" "BackupIP m1 = BackupIP m" "FailCount m1 = FailCount m"
    "SuccCount m1 = SuccCount m" "Retries m1 = Retries m" "RecoveryRetries m1 = RecoveryRetries m"
    "LastCheck m1 = LastCheck m"
    by simp_all
qed

lemma HandleFailure_result:
  assumes H: "HandleFailure env m w = (m', w')"
  shows "Status m = ''Normal'' \<and> Retries m \<le>s FailCount m + 1
           \<and> dns_ack env (m\<lparr>FailCount := FailCount m + 1\<rparr>) (BackupIP m) w
         \<Longrightarrow> Status m' = ''Down'' \<and> CurrentIP m' = BackupIP m \<and> FailCount m' = 0
             \<and> SuccCount m' = SuccCount m"
    and "Status m = ''Normal'' \<and> \<not> (Retries m \<le>s FailCount m + 1
           \<and> dns_ack env (m\<lparr>FailCount := FailCount m + 1\<rparr>) (BackupIP m) w)
         \<Longrightarrow> Status m' = ''Normal'' \<and> CurrentIP m' = CurrentIP m \<and> FailCount m' = FailCount m + 1
             \<and> SuccCount m' = SuccCount m"
    and "Status m \<noteq> ''Normal''
         \<Longrightarrow> m' = m\<lparr>SuccCount := 0\<rparr> \<and> w' = w"
proof -
  obtain ok m1 w1 where U: "UpdateCloudflareDNS env (m\<lparr>FailCount := FailCount m + 1\<rparr>) (BackupIP m) w = (ok, m1, w1)"
    by (cases "UpdateCloudflareDNS env (m\<lparr>FailCount := FailCount m + 1\<rparr>) (BackupIP m) w") auto
  note k = Update_keeps[OF U]
  have ack: "dns_ack env (m\<lparr>FailCount := FailCount m + 1\<rparr>) (BackupIP m) w = ok"
    using U by (simp add: dns_ack_def)
  show "Status m = ''Normal'' \<and> Retries m \<le>s FailCount m + 1
           \<and> dns_ack env (m\<lparr>FailCount := FailCount m + 1\<rparr>) (BackupIP m) w
         \<Longrightarrow> Status m' = ''Down'' \<and> CurrentIP m' = BackupIP m \<and> FailCount m' = 0
             \<and> SuccCount m' = SuccCount m"
    using H U k unfolding ack by (auto simp: HandleFailure_def Let_def)
  show "Status m = ''Normal'' \<and> \<not> (Retries m \<le>s FailCount m + 1
           \<and> dns_ack env (m\<lparr>FailCount := FailCount m + 1\<rparr>) (BackupIP m) w)
         \<Longrightarrow> Status m' = ''Normal'' \<and> CurrentIP m' = CurrentIP m \<and> FailCount m' = FailCount m + 1
             \<and> SuccCount m' = SuccCount m"
    using H U k unfolding ack by (auto simp: HandleFailure_def Let_def split: if_splits)
  show "Status m \<noteq> ''Normal'' \<Longrightarrow> m' = m\<lparr>SuccCount := 0\<rparr> \<and> w' = w"
    using H by (auto simp: HandleFailure_def)
qed

lemma HandleSuccess_result:
  assumes H: "HandleSuccess env m w = (m', w')"
  shows "Status m = ''Down'' \<and> threshold m \<le>s SuccCount m + 1
           \<and> dns_ack env (m\<lparr>SuccCount := SuccCount m + 1\<rparr>) (OriginalIP m) w
         \<Longrightarrow> Status m' = ''Normal'' \<and> CurrentIP m' = OriginalIP m \<and> SuccCount m' = 0
             \<and> FailCount m' = FailCount m"
    and "Status m = ''Down'' \<and> \<not> (threshold m \<le>s SuccCount m + 1
           \<and> dns_ack env (m\<lparr>SuccCount := SuccCount m + 1\<rparr>) (OriginalIP m) w)
         \<Longrightarrow> Status m' = ''Down'' \<and> CurrentIP m' = CurrentIP m \<and> SuccCount m' = SuccCount m + 1
             \<and> FailCount m' = FailCount m"
    and "Status m \<noteq> ''Down''
         \<Longrightarrow> m' = m\<lparr>FailCount := 0\<rparr> \<and> w' = w"
proof -
  obtain ok m1 w1 where U: "UpdateCloudflareDNS env (m\<lparr>SuccCount := SuccCount m + 1\<rparr>) (OriginalIP m) w = (ok, m1, w1)"
    by (cases "UpdateCloudflareDNS env (m\<lparr>SuccCount := SuccCount m + 1\<rparr>) (OriginalIP m) w") auto
  note k = Update_keeps[OF U]
  have ack: "dns_ack env (m\<lparr>SuccCount := SuccCount m + 1\<rparr>) (OriginalIP m) w = ok"
    using U by (simp add: dns_ack_def)
  have th: "threshold (m\<lparr>SuccCount := SuccCount m + 1\<rparr>) = threshold m"
    by (simp add: threshold_def)
  show "Status m = ''Down'' \<and> threshold m \<le>s SuccCount m + 1
           \<and> dns_ack env (m\<lparr>SuccCount := SuccCount m + 1\<rparr>) (OriginalIP m) w
         \<Longrightarrow> Status m' = ''Normal'' \<and> CurrentIP m' = OriginalIP m \<and> SuccCount m' = 0
             \<and> FailCount m' = FailCount m"
    using H U k unfolding ack by (auto simp: HandleSuccess_def Let_def th)
  show "Status m = ''Down'' \<and> \<not> (threshold m \<le>s SuccCount m + 1
           \<and> dns_ack env (m\<lparr>SuccCount := SuccCount m + 1\<rparr>) (OriginalIP m) w)
         \<Longrightarrow> Status m' = ''Down'' \<and> CurrentIP m' = CurrentIP m \<and> SuccCount m' = SuccCount m + 1
             \<and> FailCount m' = FailCount m"
    using H U k unfolding ack by (auto simp: HandleSuccess_def Let_def th split: if_splits)
  show "Status m \<noteq> ''Down'' \<Longrightarrow> m' = m\<lparr>FailCount := 0\<rparr> \<and> w' = w"
    using H by (auto simp: HandleSuccess_def)
qed

lemma rid_only_id [simp]: "rid_only (\<lambda>r. r)"
  by (simp add: rid_only_def)

lemma rid_only_fields:
  assumes "rid_only g"
  shows "g r = r\<lparr>CFRecordID := CFRecordID (g r)\<rparr>"
    and "CFRecordID r \<noteq> [] \<Longrightarrow> CFRecordID (g r) \<noteq> []"
  using assms by (auto simp: rid_only_def)

lemma Update_db_first_rid:
  assumes U: "UpdateCloudflareDNS env m ip w = (ok, m1, w1)"
  shows "\<exists>g. rid_only g \<and> db_first k w1 = map_option g (db_first k w)"
proof (cases "k = ID m \<and> CFRecordID m = [] \<and> CFRecordID m1 \<noteq> []")
  case True
  hence "rid_only (\<lambda>r. r\<lparr>CFRecordID := CFRecordID m1\<rparr>)" by (auto simp: rid_only_def)
  moreover have "db_first k w1 = map_option (\<lambda>r. r\<lparr>CFRecordID := CFRecordID m1\<rparr>) (db_first k w)"
    using Update_db_first[OF U, of k] True by simp
  ultimately show ?thesis by blast
next
  case False
  hence "db_first k w1 = map_option (\<lambda>r. r) (db_first k w)"
    using Update_db_first[OF U, of k] by (cases "db_first k w") auto
  thus ?thesis using rid_only_id by blast
qed

lemma SendNotification_fields [simp]:
  "db (SendNotification n w) = db w" "schedules (SendNotification n w) = schedules w"
  "httpClients (SendNotification n w) = httpClients w"
  "trace (SendNotification n w) = trace w @ [Notify n]"
  by (simp_all add: SendNotification_def)

lemma db_first_SendNotification [simp]: "db_first k (SendNotification n w) = db_first k w"
  by (simp add: db_first_def)

lemma HandleFailure_db_first:
  assumes H: "HandleFailure env m w = (m', w')"
  shows "\<exists>g. rid_only g \<and> db_first k w' = map_option g (db_first k w)"
proof -
  obtain ok m1 w1 where U: "UpdateCloudflareDNS env (m\<lparr>FailCount := FailCount m + 1\<rparr>) (BackupIP m) w = (ok, m1, w1)"
    by (cases "UpdateCloudflareDNS env (m\<lparr>FailCount := FailCount m + 1\<rparr>) (BackupIP m) w") auto
  from Update_db_first_rid[OF U, of k] obtain g where
    g: "rid_only g" "db_first k w1 = map_option g (db_first k w)" by blast
  have "db_first k w' = db_first k w \<or> db_first k w' = db_first k w1"
    using H U by (auto simp: HandleFailure_def Let_def split: if_splits)
  thus ?thesis
  proof
    assume "db_first k w' = db_first k w"
    hence "db_first k w' = map_option (\<lambda>r. r) (db_first k w)" by (simp add: option.map_ident)
    thus ?thesis using rid_only_id by blast
  next
    assume "db_first k w' = db_first k w1" thus ?thesis using g by auto
  qed
qed

lemma HandleSuccess_db_first:
  assumes H: "HandleSuccess env m w = (m', w')"
  shows "\<exists>g. rid_only g \<and> db_first k w' = map_option g (db_first k w)"
proof -
  obtain ok m1 w1 where U: "UpdateCloudflareDNS env (m\<lparr>SuccCount := SuccCount m + 1\<rparr>) (OriginalIP m) w = (ok, m1, w1)"
    by (cases "UpdateCloudflareDNS env (m\<lparr>SuccCount := SuccCount m + 1\<rparr>) (OriginalIP m) w") auto
  from Update_db_first_rid[OF U, of k] obtain g where
    g: "rid_only g" "db_first k w1 = map_option g (db_first k w)" by blast
  have "db_first k w' = db_first k w \<or> db_first k w' = db_first k w1"
    using H U by (auto simp: HandleSuccess_def Let_def split: if_splits)
  thus ?thesis
  proof
    assume "db_first k w' = db_first k w"
    hence "db_first k w' = map_option (\<lambda>r. r) (db_first k w)" by (simp add: option.map_ident)
    thus ?thesis using rid_only_id by blast
  next
    assume "db_first k w' = db_first k w1" thus ?thesis using g by auto
  qed
qed

lemma Handle_ID:
  "HandleFailure env m w = (m', w') \<Longrightarrow> ID m' = ID m"
  "HandleSuccess env m w = (m', w') \<Longrightarrow> ID m' = ID m"
proof -
  assume H: "HandleFailure env m w = (m', w')"
  obtain ok m1 w1 where U: "UpdateCloudflareDNS env (m\<lparr>FailCount := FailCount m + 1\<rparr>) (BackupIP m) w = (ok, m1, w1)"
    by (cases "UpdateCloudflareDNS env (m\<lparr>FailCount := FailCount m + 1\<rparr>) (BackupIP m) w") auto
  show "ID m' = ID m" using H U Update_keeps(1)[OF U]
    by (auto simp: HandleFailure_def Let_def split: if_splits)
next
  assume H: "HandleSuccess env m w = (m', w')"
  obtain ok m1 w1 where U: "UpdateCloudflareDNS env (m\<lparr>SuccCount := SuccCount m + 1\<rparr>) (OriginalIP m) w = (ok, m1, w1)"
    by (cases "UpdateCloudflareDNS env (m\<lparr>SuccCount := SuccCount m + 1\<rparr>) (OriginalIP m) w") auto
  show "ID m' = ID m" using H U Update_keeps(1)[OF U]
    by (auto simp: HandleSuccess_def Let_def split: if_splits)
qed

lemma ping_loop_db: "db (snd (ping_loop env ctx host t n w)) = db w"
  by (induction n arbitrary: w) (simp_all add: Let_def)

lemma CheckPing_db: "db (snd (CheckPing env host t w)) = db w"
  by (simp add: CheckPing_def Let_def ping_loop_db)

lemma CheckHTTP_db: "db (snd (CheckHTTP env target t ip w)) = db w"
  by (auto simp: CheckHTTP_def getHTTPClient_def Let_def split: option.splits prod.splits)

lemma probe_db: "db (snd (probe env m w)) = db w"
  by (simp add: probe_def Let_def CheckPing_db CheckHTTP_db)

lemma CheckMonitor_row:
  assumes r: "db_first k w = Some r"
  shows "\<exists>g t. rid_only g \<and>
     db_first k (CheckMonitor env k w) =
       Some ((g r)\<lparr>Status := Status (fst (handled env r w)), LastCheck := t,
                   FailCount := FailCount (fst (handled env r w)),
                   SuccCount := SuccCount (fst (handled env r w)),
                   CurrentIP := CurrentIP (fst (handled env r w))\<rparr>)"
proof -
  let ?m = "ApplyDefaults r"
  obtain isUp w1 where P: "probe env ?m w = (isUp, w1)" by (cases "probe env ?m w")
  obtain m1 w2 where Hd: "handled env r w = (m1, w2)" by (cases "handled env r w")
  hence H: "(if isUp then HandleSuccess env ?m w1 else HandleFailure env ?m w1) = (m1, w2)"
    using P by (simp add: handled_def Let_def)
  have "db w1 = db w" using probe_db[of env ?m w] P by simp
  hence f1: "db_first k w1 = Some r" using r by (simp add: db_first_def)
  have "\<exists>g. rid_only g \<and> db_first k w2 = map_option g (db_first k w1)"
    using H HandleSuccess_db_first HandleFailure_db_first by (cases isUp) auto
  then obtain g where g: "rid_only g" "db_first k w2 = Some (g r)" using f1 by auto
  have idm: "ID m1 = k" using H Handle_ID[of env ?m w1 m1 w2] db_first_ID[OF r] by (cases isUp) auto
  let ?t = "time_now env (trace w2)"
  let ?f = "\<lambda>r. r\<lparr>Status := Status m1, LastCheck := ?t, FailCount := FailCount m1,
                    SuccCount := SuccCount m1, CurrentIP := CurrentIP m1\<rparr>"
  have "CheckMonitor env k w = db_updates k ?f w2"
    using r P H idm by (simp add: CheckMonitor_def Let_def)
  moreover have "db_first k (db_updates k ?f w2) = map_option (\<lambda>r. if k = k then ?f r else r) (db_first k w2)"
    by (rule db_first_db_updates) simp
  ultimately have "db_first k (CheckMonitor env k w) = Some (?f (g r))" using g by simp
  thus ?thesis using g(1) Hd by auto
qed

lemma db_first_db_save:
  assumes "db_first k w = Some r" and "ID m = k"
  shows "db_first k (db_save m w) = Some m"
proof -
  have "list_ex (\<lambda>r. ID r = ID m) (db w)"
  proof -
    have "find (\<lambda>r. ID r = ID m) (db w) \<noteq> None" using assms by (simp add: db_first_def)
    thus ?thesis by (auto simp: find_None_iff list_ex_iff)
  qed
  hence "db_save m w = db_updates k (\<lambda>r. m) w" using assms(2) by (simp add: db_save_def)
  moreover have "db_first k (db_updates k (\<lambda>r. m) w)
                 = map_option (\<lambda>r. if k = k then m else r) (db_first k w)"
    by (rule db_first_db_updates) (simp add: assms(2))
  ultimately show ?thesis using assms(1) by simp
qed

lemma ScheduledSwitch_row:
  assumes r: "db_first k w = Some r"
  shows "\<exists>g. rid_only g \<and>
     db_first k (ScheduledSwitch env k ip w) =
       Some (if Status r \<noteq> ''Down'' \<and> dns_ack env r ip w
             then (g r)\<lparr>CurrentIP := ip, FailCount := 0, SuccCount := 0\<rparr> else g r)"
proof (cases "Status r = ''Down''")
  case True
  hence "ScheduledSwitch env k ip w = w" using r by (simp add: ScheduledSwitch_def)
  thus ?thesis using r True rid_only_id by (intro exI[of _ "\<lambda>r. r"]) simp
next
  case False
  obtain ok m1 w1 where U: "UpdateCloudflareDNS env r ip w = (ok, m1, w1)"
    by (cases "UpdateCloudflareDNS env r ip w") auto
  from Update_db_first_rid[OF U, of k] r obtain g where
    g: "rid_only g" "db_first k w1 = Some (g r)" by auto
  have ack: "dns_ack env r ip w = ok" using U by (simp add: dns_ack_def)
  have idm: "ID m1 = k" using Update_keeps(1)[OF U] db_first_ID[OF r] by simp
  show ?thesis
  proof (cases ok)
    case False
    hence "ScheduledSwitch env k ip w = w1" using r U \<open>Status r \<noteq> ''Down''\<close>
      by (simp add: ScheduledSwitch_def)
    thus ?thesis using g ack False by (intro exI[of _ g]) simp
  next
    case True
    let ?f = "\<lambda>r. r\<lparr>CurrentIP := ip, FailCount := 0, SuccCount := 0\<rparr>"
    have "db_first k (ScheduledSwitch env k ip w) = db_first k (db_updates k ?f w1)"
      using r U True idm \<open>Status r \<noteq> ''Down''\<close> by (simp add: ScheduledSwitch_def Let_def)
    also have "\<dots> = map_option (\<lambda>r. if k = k then ?f r else r) (db_first k w1)"
      by (rule db_first_db_updates) simp
    finally show ?thesis using g ack True \<open>Status r \<noteq> ''Down''\<close> by (intro exI[of _ g]) simp
  qed
qed

lemma RestoreMonitor_row:
  assumes r: "db_first k w = Some r"
  shows "\<exists>g t. rid_only g \<and>
     db_first k (snd (RestoreMonitor env k w)) =
       Some ((g r)\<lparr>Status := ''Normal'', FailCount := 0, SuccCount := 0,
                   CurrentIP := OriginalIP r, LastCheck := t\<rparr>)"
proof -
  let ?t = "time_now env (trace w)"
  let ?mon = "r\<lparr>Status := ''Normal'', FailCount := 0, SuccCount := 0,
                CurrentIP := OriginalIP r, LastCheck := ?t\<rparr>"
  obtain ok m1 w1 where U: "UpdateCloudflareDNS env ?mon (OriginalIP ?mon) w = (ok, m1, w1)"
    by (cases "UpdateCloudflareDNS env ?mon (OriginalIP ?mon) w") auto
  from Update_db_first_rid[OF U, of k] r obtain g0 where
    g0: "db_first k w1 = Some (g0 r)" by auto
  let ?w2 = "if ok then SendNotification (MANUAL_RECOVERY (Name m1) (OriginalIP m1)) w1 else w1"
  have w2: "db_first k ?w2 = Some (g0 r)" using g0 by simp
  have idm: "ID m1 = k" using Update_keeps(1)[OF U] db_first_ID[OF r] by simp
  have "snd (RestoreMonitor env k w) = db_save m1 ?w2"
    using r U by (simp add: RestoreMonitor_def Let_def)
  hence saved: "db_first k (snd (RestoreMonitor env k w)) = Some m1"
    using db_first_db_save[OF w2 idm] by simp
  have m1: "m1 = ?mon\<lparr>CFRecordID := CFRecordID m1\<rparr>" using Update_summary(5)[OF U] .
  show ?thesis
  proof (cases "CFRecordID m1 = CFRecordID r")
    case True
    hence "m1 = ?mon" using m1 by simp
    thus ?thesis using saved rid_only_id by (intro exI[of _ "\<lambda>r. r"] exI[of _ ?t]) simp
  next
    case False
    have "CFRecordID r = []"
    proof (rule ccontr)
      assume "CFRecordID r \<noteq> []"
      hence "m1 = ?mon" using Update_summary(6)[OF U] by simp
      thus False using False by simp
    qed
    hence ne: "CFRecordID m1 \<noteq> []" using False by auto
    hence "rid_only (\<lambda>r. r\<lparr>CFRecordID := CFRecordID m1\<rparr>)" by (auto simp: rid_only_def)
    moreover have "m1 = (r\<lparr>CFRecordID := CFRecordID m1\<rparr>)\<lparr>Status := ''Normal'', FailCount := 0,
                     SuccCount := 0, CurrentIP := OriginalIP r, LastCheck := ?t\<rparr>"
      by (subst m1) simp
    ultimately show ?thesis using saved
      by (intro exI[of _ "\<lambda>r. r\<lparr>CFRecordID := CFRecordID m1\<rparr>"] exI[of _ ?t]) simp
  qed
qed

lemma rid_only_keeps [simp]:
  assumes "rid_only g"
  shows "Status (g r) = Status r" "CurrentIP (g r) = CurrentIP r" "OriginalIP (g r) = OriginalIP r"
    "BackupIP (g r) = BackupIP r" "FailCount (g r) = FailCount r" "SuccCount (g r) = SuccCount r"
    "Retries (g r) = Retries r" "RecoveryRetries (g r) = RecoveryRetries r" "ID (g r) = ID r"
  using assms by (auto simp: rid_only_def)

lemma handled_cases:
  "handled env r w = HandleSuccess env (ApplyDefaults r) (snd (probe env (ApplyDefaults r) w))
   \<or> handled env r w = HandleFailure env (ApplyDefaults r) (snd (probe env (ApplyDefaults r) w))"
  by (simp add: handled_def Let_def split: prod.splits)

lemma HandleFailure_CurrentIP:
  "CurrentIP (fst (HandleFailure env m w)) \<in> {CurrentIP m, BackupIP m}"
proof -
  obtain m' w' where H: "HandleFailure env m w = (m', w')" by (cases "HandleFailure env m w")
  show ?thesis using HandleFailure_result[OF H] unfolding H
    by (cases "Status m = ''Normal''";
        cases "Retries m \<le>s FailCount m + 1
               \<and> dns_ack env (m\<lparr>FailCount := FailCount m + 1\<rparr>) (BackupIP m) w") auto
qed

lemma HandleSuccess_CurrentIP:
  "CurrentIP (fst (HandleSuccess env m w)) \<in> {CurrentIP m, OriginalIP m}"
proof -
  obtain m' w' where H: "HandleSuccess env m w = (m', w')" by (cases "HandleSuccess env m w")
  show ?thesis using HandleSuccess_result[OF H] unfolding H
    by (cases "Status m = ''Down''";
        cases "threshold m \<le>s SuccCount m + 1
               \<and> dns_ack env (m\<lparr>SuccCount := SuccCount m + 1\<rparr>) (OriginalIP m) w") auto
qed

lemma handled_CurrentIP:
  "CurrentIP (fst (handled env r w)) \<in> {CurrentIP r, OriginalIP r, BackupIP r}"
  using handled_cases[of env r w]
    HandleFailure_CurrentIP[of env "ApplyDefaults r" "snd (probe env (ApplyDefaults r) w)"]
    HandleSuccess_CurrentIP[of env "ApplyDefaults r" "snd (probe env (ApplyDefaults r) w)"]
  by auto

lemma engine_step_CurrentIP:
  assumes r: "db_first k w = Some r"
  shows "\<exists>r'. db_first k (engine_step env k op w) = Some r'
           \<and> OriginalIP r' = OriginalIP r \<and> BackupIP r' = BackupIP r
           \<and> (CurrentIP r' \<in> {CurrentIP r, OriginalIP r, BackupIP r} \<or> op = Rotate (CurrentIP r'))"
proof (cases op)
  case Check
  from CheckMonitor_row[OF r, of env] obtain g t where
    "rid_only g" "db_first k (CheckMonitor env k w) =
       Some ((g r)\<lparr>Status := Status (fst (handled env r w)), LastCheck := t,
                   FailCount := FailCount (fst (handled env r w)),
                   SuccCount := SuccCount (fst (handled env r w)),
                   CurrentIP := CurrentIP (fst (handled env r w))\<rparr>)" by blast
  thus ?thesis using Check handled_CurrentIP[of env r w] by auto
next
  case (Rotate ip)
  from ScheduledSwitch_row[OF r, of env ip] obtain g where
    "rid_only g" "db_first k (ScheduledSwitch env k ip w) =
       Some (if Status r \<noteq> ''Down'' \<and> dns_ack env r ip w
             then (g r)\<lparr>CurrentIP := ip, FailCount := 0, SuccCount := 0\<rparr> else g r)" by blast
  thus ?thesis using Rotate by auto
next
  case Restore
  from RestoreMonitor_row[OF r, of env] obtain g t where
    "rid_only g" "db_first k (snd (RestoreMonitor env k w)) =
       Some ((g r)\<lparr>Status := ''Normal'', FailCount := 0, SuccCount := 0,
                   CurrentIP := OriginalIP r, LastCheck := t\<rparr>)" by blast
  thus ?thesis using Restore by auto
qed

lemma engine_run_CurrentIP:
  assumes "db_first k w = Some r"
    and "CurrentIP r \<in> {OriginalIP r, BackupIP r} \<union> T"
    and "\<forall>ip. Rotate ip \<in> set ops \<longrightarrow> ip \<in> T"
  shows "\<exists>r'. db_first k (engine_run env k ops w) = Some r'
           \<and> OriginalIP r' = OriginalIP r \<and> BackupIP r' = BackupIP r
           \<and> CurrentIP r' \<in> {OriginalIP r, BackupIP r} \<union> T"
  using assms
proof (induction ops arbitrary: w r)
  case Nil
  thus ?case by (simp add: engine_run_def)
next
  case (Cons op ops)
  from engine_step_CurrentIP[OF Cons.prems(1), of env op] obtain r1 where
    r1: "db_first k (engine_step env k op w) = Some r1" "OriginalIP r1 = OriginalIP r"
      "BackupIP r1 = BackupIP r"
      "CurrentIP r1 \<in> {CurrentIP r, OriginalIP r, BackupIP r} \<or> op = Rotate (CurrentIP r1)"
    by blast
  have "CurrentIP r1 \<in> {OriginalIP r1, BackupIP r1} \<union> T"
    using r1 Cons.prems(2,3) by auto
  moreover have "\<forall>ip. Rotate ip \<in> set ops \<longrightarrow> ip \<in> T" using Cons.prems(3) by simp
  ultimately obtain r' where "db_first k (engine_run env k ops (engine_step env k op w)) = Some r'"
     "OriginalIP r' = OriginalIP r1" "BackupIP r' = BackupIP r1"
     "CurrentIP r' \<in> {OriginalIP r1, BackupIP r1} \<union> T"
    using Cons.IH[OF r1(1)] by blast
  thus ?case using r1 by (simp add: engine_run_def)
qed

lemma ToMonitor_fields [simp]:
  "OriginalIP (ToMonitor mc) = mc_OriginalIP mc" "BackupIP (ToMonitor mc) = mc_BackupIP mc"
  "CFRecordID (ToMonitor mc) = mc_RecordID mc" "CFZoneID (ToMonitor mc) = mc_ZoneID mc"
  "CFDomain (ToMonitor mc) = mc_Domain mc" "Name (ToMonitor mc) = mc_Name mc"
  "Status (ToMonitor mc) = []" "CurrentIP (ToMonitor mc) = []"
  by (simp_all add: ToMonitor_def)

lemma CreateMonitor_OK:
  assumes "CreateMonitor env input w = (OK created, w')"
  shows "CurrentIP created = OriginalIP created" and "Status created = ''Normal''"
    and "created \<in> set (db w')"
  using assms
  by (auto simp: CreateMonitor_def db_create_def Let_def
           split: if_splits prod.splits sum.splits)

lemma seed_monitor_new:
  assumes "db_first_by_name (mc_Name mc) w = None"
  shows "\<exists>created. db (seed_monitor env mc w) = db w @ [created]
           \<and> CurrentIP created = OriginalIP created \<and> Status created = ''Normal''"
  using assms by (simp add: seed_monitor_def db_create_def Let_def)

lemma scn_create:
  "map_option (\<lambda>r. (ID r, CurrentIP r, OriginalIP r, CFRecordID r, Retries r, RecoveryRetries r))
     (case fst (CreateMonitor scn_env scn_config (scn_world scn_monitor)) of OK c \<Rightarrow> Some c | _ \<Rightarrow> None)
   = Some (2, ''4.4.4.4'', ''4.4.4.4'', ''rec-1'', 3, 2)"
  by code_simp


lemma run_length_snoc [simp]:
  "run_length b (xs @ [x]) = (if x = b then Suc (run_length b xs) else 0)"
  by (simp add: run_length_def)

lemma run_length_Nil [simp]: "run_length b [] = 0"
  by (simp add: run_length_def)

lemma results_Suc: "results env k (Suc n) w = results env k n w @ [observed env k (checks env k n w)]"
  by (simp add: results_def)

lemma handled_observed:
  assumes "db_first k w = Some r"
  shows "handled env r w =
     (if observed env k w
      then HandleSuccess env (ApplyDefaults r) (snd (probe env (ApplyDefaults r) w))
      else HandleFailure env (ApplyDefaults r) (snd (probe env (ApplyDefaults r) w)))"
  using assms by (simp add: handled_def observed_def Let_def split: prod.splits)

lemma check_step:
  assumes r: "db_first k w = Some r"
  shows "\<exists>r'. db_first k (CheckMonitor env k w) = Some r'
     \<and> Retries r' = Retries r \<and> RecoveryRetries r' = RecoveryRetries r
     \<and> (if Status r = ''Normal'' \<and> \<not> observed env k w then
           (Status r' = ''Normal'' \<and> FailCount r' = FailCount r + 1 \<and> SuccCount r' = SuccCount r)
           \<or> (Status r' = ''Down'' \<and> FailCount r' = 0 \<and> SuccCount r' = SuccCount r
               \<and> Retries (ApplyDefaults r) \<le>s FailCount r + 1)
         else if Status r = ''Down'' \<and> observed env k w then
           (Status r' = ''Down'' \<and> SuccCount r' = SuccCount r + 1 \<and> FailCount r' = FailCount r)
           \<or> (Status r' = ''Normal'' \<and> SuccCount r' = 0 \<and> FailCount r' = FailCount r
               \<and> threshold (ApplyDefaults r) \<le>s SuccCount r + 1)
         else if observed env k w then
           Status r' = Status r \<and> FailCount r' = 0 \<and> SuccCount r' = SuccCount r
         else Status r' = Status r \<and> SuccCount r' = 0 \<and> FailCount r' = FailCount r)"
proof -
  let ?m = "ApplyDefaults r"
  let ?w1 = "snd (probe env ?m w)"
  from CheckMonitor_row[OF r, of env] obtain g t where
    g: "rid_only g" and row: "db_first k (CheckMonitor env k w) =
       Some ((g r)\<lparr>Status := Status (fst (handled env r w)), LastCheck := t,
                   FailCount := FailCount (fst (handled env r w)),
                   SuccCount := SuccCount (fst (handled env r w)),
                   CurrentIP := CurrentIP (fst (handled env r w))\<rparr>)" by blast
  let ?r' = "(g r)\<lparr>Status := Status (fst (handled env r w)), LastCheck := t,
                   FailCount := FailCount (fst (handled env r w)),
                   SuccCount := SuccCount (fst (handled env r w)),
                   CurrentIP := CurrentIP (fst (handled env r w))\<rparr>"
  have cfg: "Retries ?r' = Retries r" "RecoveryRetries ?r' = RecoveryRetries r"
    using g by simp_all
  have st: "Status ?r' = Status (fst (handled env r w))"
    "FailCount ?r' = FailCount (fst (handled env r w))"
    "SuccCount ?r' = SuccCount (fst (handled env r w))" by simp_all
  obtain mf wf' where HF: "HandleFailure env ?m ?w1 = (mf, wf')" by (cases "HandleFailure env ?m ?w1")
  obtain ms ws' where HS: "HandleSuccess env ?m ?w1 = (ms, ws')" by (cases "HandleSuccess env ?m ?w1")
  note ho = handled_observed[OF r, of env]
  have body: "if Status r = ''Normal'' \<and> \<not> observed env k w then
           (Status ?r' = ''Normal'' \<and> FailCount ?r' = FailCount r + 1 \<and> SuccCount ?r' = SuccCount r)
           \<or> (Status ?r' = ''Down'' \<and> FailCount ?r' = 0 \<and> SuccCount ?r' = SuccCount r
               \<and> Retries (ApplyDefaults r) \<le>s FailCount r + 1)
         else if Status r = ''Down'' \<and> observed env k w then
           (Status ?r' = ''Down'' \<and> SuccCount ?r' = SuccCount r + 1 \<and> FailCount ?r' = FailCount r)
           \<or> (Status ?r' = ''Normal'' \<and> SuccCount ?r' = 0 \<and> FailCount ?r' = FailCount r
               \<and> threshold (ApplyDefaults r) \<le>s SuccCount r + 1)
         else if observed env k w then
           Status ?r' = Status r \<and> FailCount ?r' = 0 \<and> SuccCount ?r' = SuccCount r
         else Status ?r' = Status r \<and> SuccCount ?r' = 0 \<and> FailCount ?r' = FailCount r"
  proof (cases "observed env k w")
    case up: True
    hence h: "handled env r w = (ms, ws')" using ho HS by simp
    show ?thesis
    proof (cases "Status r = ''Down''")
      case True
      let ?a = "threshold ?m \<le>s SuccCount ?m + 1
               \<and> dns_ack env (?m\<lparr>SuccCount := SuccCount ?m + 1\<rparr>) (OriginalIP ?m) ?w1"
      show ?thesis
      proof (cases ?a)
        case True
        with HandleSuccess_result(1)[OF HS] \<open>Status r = ''Down''\<close>
        have "Status ms = ''Normal'' \<and> SuccCount ms = 0 \<and> FailCount ms = FailCount r" by simp
        thus ?thesis using up \<open>Status r = ''Down''\<close> True unfolding st h by simp
      next
        case False
        with HandleSuccess_result(2)[OF HS] \<open>Status r = ''Down''\<close>
        have "Status ms = ''Down'' \<and> SuccCount ms = SuccCount r + 1 \<and> FailCount ms = FailCount r"
          by simp
        thus ?thesis using up \<open>Status r = ''Down''\<close> unfolding st h by simp
      qed
    next
      case False
      with HandleSuccess_result(3)[OF HS] have "ms = ?m\<lparr>FailCount := 0\<rparr>" by simp
      thus ?thesis using up False unfolding st h by simp
    qed
  next
    case down: False
    hence h: "handled env r w = (mf, wf')" using ho HF by simp
    show ?thesis
    proof (cases "Status r = ''Normal''")
      case True
      let ?a = "Retries ?m \<le>s FailCount ?m + 1
               \<and> dns_ack env (?m\<lparr>FailCount := FailCount ?m + 1\<rparr>) (BackupIP ?m) ?w1"
      show ?thesis
      proof (cases ?a)
        case True
        with HandleFailure_result(1)[OF HF] \<open>Status r = ''Normal''\<close>
        have "Status mf = ''Down'' \<and> FailCount mf = 0 \<and> SuccCount mf = SuccCount r" by simp
        thus ?thesis using down \<open>Status r = ''Normal''\<close> True unfolding st h by simp
      next
        case False
        with HandleFailure_result(2)[OF HF] \<open>Status r = ''Normal''\<close>
        have "Status mf = ''Normal'' \<and> FailCount mf = FailCount r + 1 \<and> SuccCount mf = SuccCount r"
          by simp
        thus ?thesis using down \<open>Status r = ''Normal''\<close> unfolding st h by simp
      qed
    next
      case False
      with HandleFailure_result(3)[OF HF] have "mf = ?m\<lparr>SuccCount := 0\<rparr>" by simp
      thus ?thesis using down False unfolding st h by simp
    qed
  qed
  show ?thesis using row cfg body by blast
qed

lemma sint_nonneg_uint:
  fixes w :: "64 word" assumes "0 \<le> sint w" shows "sint w = uint w"
proof -
  have "sint w < 2 ^ 63" using sint_less[of w] by simp
  hence "sint w < 2 ^ 64" by simp
  hence "take_bit 64 (sint w) = sint w" using assms by (simp add: take_bit_int_eq_self)
  thus ?thesis using uint_sint[of w] by simp
qed

lemma uint_of_nat_le: "uint (of_nat L :: 64 word) \<le> int L"
  by (metis (mono_tags, lifting) le_unat_uoi nat_le_linear of_nat_le_iff of_nat_unat)

lemma sle_of_nat_bound:
  fixes T :: "64 word"
  assumes "1 \<le> sint T" and "T \<le>s of_nat L"
  shows "nat (sint T) \<le> L"
proof -
  have le: "sint T \<le> sint (of_nat L :: 64 word)" using assms(2) by (simp add: word_sle_eq)
  hence "0 \<le> sint (of_nat L :: 64 word)" using assms(1) by linarith
  hence "sint (of_nat L :: 64 word) = uint (of_nat L :: 64 word)" by (rule sint_nonneg_uint)
  hence "sint T \<le> int L" using le uint_of_nat_le[of L] by linarith
  thus ?thesis by linarith
qed

lemma counts_step:
  assumes r: "db_first k w = Some r" and inv: "counts_ok r xs"
  shows "\<exists>r'. db_first k (CheckMonitor env k w) = Some r'
     \<and> Retries r' = Retries r \<and> RecoveryRetries r' = RecoveryRetries r
     \<and> counts_ok r' (xs @ [observed env k w])
     \<and> (Status r = ''Normal'' \<and> Status r' = ''Down'' \<longrightarrow>
          Retries (ApplyDefaults r) \<le>s of_nat (run_length False (xs @ [observed env k w])))
     \<and> (Status r = ''Down'' \<and> Status r' = ''Normal'' \<longrightarrow>
          threshold (ApplyDefaults r) \<le>s of_nat (run_length True (xs @ [observed env k w])))"
proof -
  from check_step[OF r, of env] obtain r' where
    row: "db_first k (CheckMonitor env k w) = Some r'"
    and cfg: "Retries r' = Retries r" "RecoveryRetries r' = RecoveryRetries r"
    and body: "if Status r = ''Normal'' \<and> \<not> observed env k w then
           (Status r' = ''Normal'' \<and> FailCount r' = FailCount r + 1 \<and> SuccCount r' = SuccCount r)
           \<or> (Status r' = ''Down'' \<and> FailCount r' = 0 \<and> SuccCount r' = SuccCount r
               \<and> Retries (ApplyDefaults r) \<le>s FailCount r + 1)
         else if Status r = ''Down'' \<and> observed env k w then
           (Status r' = ''Down'' \<and> SuccCount r' = SuccCount r + 1 \<and> FailCount r' = FailCount r)
           \<or> (Status r' = ''Normal'' \<and> SuccCount r' = 0 \<and> FailCount r' = FailCount r
               \<and> threshold (ApplyDefaults r) \<le>s SuccCount r + 1)
         else if observed env k w then
           Status r' = Status r \<and> FailCount r' = 0 \<and> SuccCount r' = SuccCount r
         else Status r' = Status r \<and> SuccCount r' = 0 \<and> FailCount r' = FailCount r"
    by blast
  have nd: "''Normal'' \<noteq> ''Down''" by simp
  have rest: "counts_ok r' (xs @ [observed env k w])
     \<and> (Status r = ''Normal'' \<and> Status r' = ''Down'' \<longrightarrow>
          Retries (ApplyDefaults r) \<le>s of_nat (run_length False (xs @ [observed env k w])))
     \<and> (Status r = ''Down'' \<and> Status r' = ''Normal'' \<longrightarrow>
          threshold (ApplyDefaults r) \<le>s of_nat (run_length True (xs @ [observed env k w])))"
  proof (cases "Status r = ''Normal''")
    case N: True
    hence c: "FailCount r = of_nat (run_length False xs)" "SuccCount r = 0"
      using inv by (simp_all add: counts_ok_def)
    show ?thesis
    proof (cases "observed env k w")
      case True
      with body N have "Status r' = ''Normal'' \<and> FailCount r' = 0 \<and> SuccCount r' = 0"
        using c by simp
      thus ?thesis using True N by (simp add: counts_ok_def)
    next
      case False
      with body N have "(Status r' = ''Normal'' \<and> FailCount r' = of_nat (Suc (run_length False xs))
                            \<and> SuccCount r' = 0)
           \<or> (Status r' = ''Down'' \<and> FailCount r' = 0 \<and> SuccCount r' = 0
               \<and> Retries (ApplyDefaults r) \<le>s of_nat (Suc (run_length False xs)))"
        using c by (simp add: add.commute)
      thus ?thesis using False N by (auto simp: counts_ok_def)
    qed
  next
    case notN: False
    hence D: "Status r = ''Down''" using inv by (simp add: counts_ok_def)
    hence c: "SuccCount r = of_nat (run_length True xs)" "FailCount r = 0"
      using inv by (simp_all add: counts_ok_def)
    show ?thesis
    proof (cases "observed env k w")
      case False
      with body D have "Status r' = ''Down'' \<and> SuccCount r' = 0 \<and> FailCount r' = 0"
        using c by simp
      thus ?thesis using False D by (simp add: counts_ok_def)
    next
      case True
      with body D have "(Status r' = ''Down'' \<and> SuccCount r' = of_nat (Suc (run_length True xs))
                            \<and> FailCount r' = 0)
           \<or> (Status r' = ''Normal'' \<and> SuccCount r' = 0 \<and> FailCount r' = 0
               \<and> threshold (ApplyDefaults r) \<le>s of_nat (Suc (run_length True xs)))"
        using c by (simp add: add.commute)
      thus ?thesis using True D by (auto simp: counts_ok_def)
    qed
  qed
  show ?thesis using row cfg rest by blast
qed

lemma counts_run:
  assumes r: "db_first k w = Some r" and inv: "counts_ok r []"
  shows "\<exists>rn. db_first k (checks env k n w) = Some rn
     \<and> Retries rn = Retries r \<and> RecoveryRetries rn = RecoveryRetries r
     \<and> counts_ok rn (results env k n w)"
proof (induction n)
  case 0
  show ?case using r inv by (simp add: results_def)
next
  case (Suc n)
  then obtain rn where rn: "db_first k (checks env k n w) = Some rn"
    "Retries rn = Retries r" "RecoveryRetries rn = RecoveryRetries r"
    "counts_ok rn (results env k n w)" by blast
  from counts_step[OF rn(1) rn(4), of env] rn(2,3)
  show ?case by (auto simp: results_Suc)
qed

lemma thresholds_cong:
  assumes "Retries rn = Retries r" "RecoveryRetries rn = RecoveryRetries r"
  shows "Retries (ApplyDefaults rn) = Retries (ApplyDefaults r)"
    and "threshold (ApplyDefaults rn) = threshold (ApplyDefaults r)"
proof -
  show a: "Retries (ApplyDefaults rn) = Retries (ApplyDefaults r)"
    by (simp only: ApplyDefaults_thresholds assms)
  have b: "RecoveryRetries (ApplyDefaults rn) = RecoveryRetries (ApplyDefaults r)"
    by (simp only: ApplyDefaults_thresholds assms)
  show "threshold (ApplyDefaults rn) = threshold (ApplyDefaults r)"
    unfolding threshold_def by (simp only: a b)
qed

lemma thresholds_positive:
  "1 \<le> sint (Retries (ApplyDefaults r))" "1 \<le> sint (threshold (ApplyDefaults r))"
proof -
  have "0 <s Retries (ApplyDefaults r)"
    by (auto simp: ApplyDefaults_thresholds word_sle_eq word_sless_alt)
  thus "1 \<le> sint (Retries (ApplyDefaults r))" by (simp add: word_sless_alt)
  have "0 <s threshold (ApplyDefaults r)"
    by (auto simp: threshold_def ApplyDefaults_thresholds word_sle_eq word_sless_alt)
  thus "1 \<le> sint (threshold (ApplyDefaults r))" by (simp add: word_sless_alt)
qed


lemma engine_keeps_record_id:
  assumes r: "db_first k w = Some r" and ne: "CFRecordID r \<noteq> []"
  shows "\<exists>r'. db_first k (engine_step env k op w) = Some r' \<and> CFRecordID r' \<noteq> []"
proof (cases op)
  case Check
  from CheckMonitor_row[OF r, of env] obtain g t where
    "rid_only g" "db_first k (CheckMonitor env k w) =
       Some ((g r)\<lparr>Status := Status (fst (handled env r w)), LastCheck := t,
                   FailCount := FailCount (fst (handled env r w)),
                   SuccCount := SuccCount (fst (handled env r w)),
                   CurrentIP := CurrentIP (fst (handled env r w))\<rparr>)" by blast
  thus ?thesis using Check rid_only_fields(2)[OF \<open>rid_only g\<close> ne] by simp
next
  case (Rotate ip)
  from ScheduledSwitch_row[OF r, of env ip] obtain g where
    "rid_only g" "db_first k (ScheduledSwitch env k ip w) =
       Some (if Status r \<noteq> ''Down'' \<and> dns_ack env r ip w
             then (g r)\<lparr>CurrentIP := ip, FailCount := 0, SuccCount := 0\<rparr> else g r)" by blast
  thus ?thesis using Rotate rid_only_fields(2)[OF \<open>rid_only g\<close> ne] by simp
next
  case Restore
  from RestoreMonitor_row[OF r, of env] obtain g t where
    "rid_only g" "db_first k (snd (RestoreMonitor env k w)) =
       Some ((g r)\<lparr>Status := ''Normal'', FailCount := 0, SuccCount := 0,
                   CurrentIP := OriginalIP r, LastCheck := t\<rparr>)" by blast
  thus ?thesis using Restore rid_only_fields(2)[OF \<open>rid_only g\<close> ne] by simp
qed

lemma Fetch_db: "FetchCloudflareRecordID env m w = (x, w') \<Longrightarrow> db w' = db w"
  by (drule Fetch_cases) auto

lemma UpdateMonitor_unfold:
  "UpdateMonitor env k input w =
     (if mc_Name input = [] \<or> mc_Target input = []
      then (BadRequest ''Name and Target are required'', w)
      else
        (case db_first k w of
           None \<Rightarrow> (NotFound ''Monitor not found'', w)
         | Some monitor0 \<Rightarrow>
             (let (monitor, w1) = updated_row env monitor0 input w;
                  saved = db_save monitor w1;
                  others = filter (\<lambda>s. MonitorID s \<noteq> ID monitor) (schedules saved)
              in if mc_Schedules input \<noteq> [] then
                   (OK monitor,
                    saved\<lparr>schedules := others
                       @ map (\<lambda>s. \<lparr>MonitorID = ID monitor, Cron = scfg_Cron s,
                                   TargetIP = scfg_TargetIP s\<rparr>) (mc_Schedules input)\<rparr>)
                 else
                   (case ScheduleEnabled input of
                      None \<Rightarrow> (OK monitor, saved)
                    | Some False \<Rightarrow> (OK monitor, saved\<lparr>schedules := others\<rparr>)
                    | Some True \<Rightarrow>
                        if ScheduleSwitchIP input = []
                        then (BadRequest ''schedule_switch_ip is required'', w1)
                        else if ScheduleHours input <s 0 \<or> 23 <s ScheduleHours input
                        then (InternalServerError
                               ''Failed to update monitor: schedule_hours must be between 0 and 23'', w1)
                        else
                          (OK monitor,
                           saved\<lparr>schedules := others
                              @ [\<lparr>MonitorID = ID monitor,
                                  Cron = ''0 '' @ Itoa (ScheduleHours input) @ '' * * *'',
                                  TargetIP = ScheduleSwitchIP input\<rparr>]\<rparr>)))))"
  unfolding UpdateMonitor_def updated_row_def Let_def
  by (simp only: split_def fst_conv snd_conv)

lemma updated_row_props:
  assumes "updated_row env r input w = (m, w1)"
  shows "ID m = ID r" and "db w1 = db w"
    and "mc_RecordID input \<noteq> [] \<Longrightarrow> CFRecordID m = mc_RecordID input"
    and "mc_RecordID input = [] \<Longrightarrow>
         \<not> (mc_ZoneID input \<noteq> [] \<and> mc_ZoneID input \<noteq> CFZoneID r) \<Longrightarrow>
         \<not> (mc_Domain input \<noteq> [] \<and> mc_Domain input \<noteq> CFDomain r) \<Longrightarrow>
         CFRecordID m = CFRecordID r"
proof -
  let ?z = "mc_ZoneID input \<noteq> [] \<and> mc_ZoneID input \<noteq> CFZoneID r"
  let ?d = "mc_Domain input \<noteq> [] \<and> mc_Domain input \<noteq> CFDomain r"
  let ?m1 = "r\<lparr>Name := mc_Name input, AccountName := mc_Account input,
                               Target := mc_Target input, Type := mc_Type input,
                               DNSType := mc_DNSType input, Interval := mc_Interval input,
                               Timeout := mc_Timeout input, Retries := mc_Retries input,
                               RecoveryRetries := mc_RecoveryRetries input,
                               OriginalIP := mc_OriginalIP input,
                               BackupIP := mc_BackupIP input\<rparr>"
  let ?m3 = "?m1\<lparr>CFZoneID := (if ?z then mc_ZoneID input else CFZoneID r),
                   CFDomain := (if ?d then mc_Domain input else CFDomain r)\<rparr>"
  show "mc_RecordID input \<noteq> [] \<Longrightarrow> CFRecordID m = mc_RecordID input"
    using assms by (auto simp: updated_row_def Let_def split: if_splits)
  show "mc_RecordID input = [] \<Longrightarrow> \<not> ?z \<Longrightarrow> \<not> ?d \<Longrightarrow> CFRecordID m = CFRecordID r"
    using assms by (auto simp: updated_row_def Let_def split: if_splits)
  have "ID m = ID r \<and> db w1 = db w"
  proof (cases "mc_RecordID input = [] \<and> (?z \<or> ?d)")
    case False
    thus ?thesis using assms by (auto simp: updated_row_def Let_def split: if_splits)
  next
    case True
    obtain x wf' where F: "FetchCloudflareRecordID env (?m3\<lparr>CFRecordID := []\<rparr>) w = (x, wf')"
      by (cases "FetchCloudflareRecordID env (?m3\<lparr>CFRecordID := []\<rparr>) w")
    have "updated_row env r input w =
            (case x of Inr foundID \<Rightarrow> if foundID \<noteq> [] then (ApplyDefaults (?m3\<lparr>CFRecordID := foundID\<rparr>), wf')
                         else (ApplyDefaults (?m3\<lparr>CFRecordID := []\<rparr>), wf')
             | Inl e \<Rightarrow> (ApplyDefaults (?m3\<lparr>CFRecordID := []\<rparr>), wf'))"
      using True F by (cases ?z; cases ?d) (auto simp: updated_row_def Let_def split: sum.splits)
    thus ?thesis using assms Fetch_db[OF F] by (auto split: sum.splits if_splits)
  qed
  thus "ID m = ID r" "db w1 = db w" by simp_all
qed

lemma UpdateMonitor_keeps_record_id:
  assumes r: "db_first k w = Some r" and ne: "CFRecordID r \<noteq> []"
    and U: "UpdateMonitor env k input w = (OK m, w')"
  shows "db_first k w' = Some m"
    and "CFRecordID m = [] \<Longrightarrow>
           mc_RecordID input = []
           \<and> ((mc_ZoneID input \<noteq> [] \<and> mc_ZoneID input \<noteq> CFZoneID r)
              \<or> (mc_Domain input \<noteq> [] \<and> mc_Domain input \<noteq> CFDomain r))"
proof -
  obtain mon w1 where R: "updated_row env r input w = (mon, w1)"
    by (cases "updated_row env r input w")
  note p = updated_row_props[OF R]
  have mm: "m = mon \<and> db w' = db (db_save mon w1)"
    using U r R
    by (auto simp: UpdateMonitor_unfold Let_def split: if_splits option.splits bool.splits)
  have idm: "ID mon = k" using p(1) db_first_ID[OF r] by simp
  have f1: "db_first k w1 = Some r" using r p(2) by (simp add: db_first_def)
  have "db_first k (db_save mon w1) = Some mon" by (rule db_first_db_save[OF f1 idm])
  thus "db_first k w' = Some m" using mm by (simp add: db_first_def)
  show "CFRecordID m = [] \<Longrightarrow>
           mc_RecordID input = []
           \<and> ((mc_ZoneID input \<noteq> [] \<and> mc_ZoneID input \<noteq> CFZoneID r)
              \<or> (mc_Domain input \<noteq> [] \<and> mc_Domain input \<noteq> CFDomain r))"
    using p(3,4) ne mm by metis
qed


lemma ping_loop_step:
  "ping_loop env ctx host t (Suc n) w =
     (if cmd_run env (trace w) ctx (ping_cmd env host t)
      then (True, emit (Exec ctx (ping_cmd env host t)) w)
      else ping_loop env ctx host t n
             (emit (Sleep 500) (emit (Exec ctx (ping_cmd env host t)) w)))"
  by (simp add: ping_cmd_def Let_def)

lemma sint_small:
  fixes w :: "64 word"
  assumes "uint w < 2 ^ 63"
  shows "sint w = uint w"
proof -
  have lo: "- (2 ^ 63) \<le> uint w" by (rule order_trans[of _ 0]) simp_all
  have "sint w = signed_take_bit 63 (uint w)" by (simp add: sint_uint)
  also have "\<dots> = uint w" by (rule signed_take_bit_int_eq_self[OF lo assms])
  finally show ?thesis .
qed

lemma ping_ctx_seconds:
  assumes "0 \<le> sint t" and "sint t \<le> 9223372034"
  shows "sint (ctx_timeout (ping_ctx t)) = (sint t + 2) * 1000000000"
proof -
  have ut: "uint t = sint t" using sint_nonneg_uint[OF assms(1)] by simp
  have "uint (t + 2) = (uint t + uint (2 :: 64 word)) mod 2 ^ LENGTH(64)"
    by (rule uint_word_ariths)
  also have "\<dots> = (sint t + 2) mod 2 ^ 64" using ut by simp
  also have "\<dots> = sint t + 2" using assms by (intro mod_pos_pos_trivial) simp_all
  finally have u2: "uint (t + 2) = sint t + 2" .
  have "uint ((t + 2) * 1000000000) = uint (t + 2) * uint (1000000000 :: 64 word) mod 2 ^ LENGTH(64)"
    by (rule uint_word_ariths)
  also have "\<dots> = ((sint t + 2) * 1000000000) mod 2 ^ 64" using u2 by simp
  also have "\<dots> = (sint t + 2) * 1000000000" using assms by (intro mod_pos_pos_trivial) simp_all
  finally have u3: "uint ((t + 2) * 1000000000) = (sint t + 2) * 1000000000" .
  have "(sint t + 2) * 1000000000 < 2 ^ 63" using assms by simp
  hence "uint ((t + 2) * 1000000000) < 2 ^ 63" using u3 by simp
  from sint_small[OF this] u3 show ?thesis by (simp add: ping_ctx_def)
qed


lemma digit_not_dash: "d < 10 \<Longrightarrow> char_of (48 + d :: nat) \<noteq> CHR ''-''"
proof
  assume d: "d < 10" and "char_of (48 + d) = CHR ''-''"
  hence "of_char (char_of (48 + d) :: char) = (of_char (CHR ''-'') :: nat)" by simp
  hence "(48 + d) mod 256 = 45" by (simp add: of_char_of)
  thus False using d by simp
qed

lemma digits_no_dash: "CHR ''-'' \<notin> set (digits n)"
proof (induction n rule: digits.induct)
  case (1 n)
  show ?case
  proof (cases "n < 10")
    case True
    thus ?thesis using digit_not_dash[of n] by (subst digits.simps) auto
  next
    case False
    have "n mod 10 < 10" by simp
    from digit_not_dash[OF this] 1[OF False] False
    show ?thesis by (subst digits.simps) auto
  qed
qed

lemma Itoa_no_dash: "0 \<le>s t \<Longrightarrow> CHR ''-'' \<notin> set (Itoa t)"
  by (simp add: Itoa_def digits_no_dash word_sle_eq word_sless_alt)

lemma key_inj:
  assumes "CHR ''-'' \<notin> set x" "CHR ''-'' \<notin> set y" "a @ ''-'' @ x = b @ ''-'' @ y"
  shows "a = b"
proof -
  have "rev x @ CHR ''-'' # rev a = rev y @ CHR ''-'' # rev b"
    using arg_cong[OF assms(3), of rev] by simp
  hence "takeWhile (\<lambda>c. c \<noteq> CHR ''-'') (rev x @ CHR ''-'' # rev a)
         = takeWhile (\<lambda>c. c \<noteq> CHR ''-'') (rev y @ CHR ''-'' # rev b)" by simp
  moreover have "takeWhile (\<lambda>c. c \<noteq> CHR ''-'') (rev x @ CHR ''-'' # rev a) = rev x"
    using assms(1) by (subst takeWhile_append2) auto
  moreover have "takeWhile (\<lambda>c. c \<noteq> CHR ''-'') (rev y @ CHR ''-'' # rev b) = rev y"
    using assms(2) by (subst takeWhile_append2) auto
  ultimately have "x = y" by simp
  thus ?thesis using assms(3) by simp
qed

lemma getHTTPClient_pinned:
  assumes ok: "cache_ok w" and t: "0 \<le>s t"
  shows "cl_forceIP (fst (getHTTPClient ip t w)) = ip"
    and "cache_ok (snd (getHTTPClient ip t w))"
    and "db (snd (getHTTPClient ip t w)) = db w" "trace (snd (getHTTPClient ip t w)) = trace w"
proof -
  show "cl_forceIP (fst (getHTTPClient ip t w)) = ip"
  proof (cases "httpClients w (ip @ ''-'' @ Itoa t)")
    case None
    thus ?thesis by (simp add: getHTTPClient_def Let_def)
  next
    case (Some c)
    with ok obtain t' where t': "0 \<le>s t'" "ip @ ''-'' @ Itoa t = cl_forceIP c @ ''-'' @ Itoa t'"
      unfolding cache_ok_def by blast
    have "ip = cl_forceIP c"
      by (rule key_inj[OF Itoa_no_dash[OF t] Itoa_no_dash[OF t'(1)] t'(2)])
    thus ?thesis using Some by (simp add: getHTTPClient_def Let_def)
  qed
  show "cache_ok (snd (getHTTPClient ip t w))"
  proof (cases "httpClients w (ip @ ''-'' @ Itoa t)")
    case (Some c)
    thus ?thesis using ok by (simp add: getHTTPClient_def Let_def)
  next
    case None
    thus ?thesis using ok t unfolding cache_ok_def
      by (auto simp: getHTTPClient_def Let_def)
  qed
  show "db (snd (getHTTPClient ip t w)) = db w" "trace (snd (getHTTPClient ip t w)) = trace w"
    by (auto simp: getHTTPClient_def Let_def split: option.splits)
qed

lemma CheckHTTP_events:
  assumes ok: "cache_ok w" and t: "0 \<le>s t"
  shows "cache_ok (snd (CheckHTTP env target t ip w))"
    and "trace (snd (CheckHTTP env target t ip w)) = trace w
         \<or> (\<exists>cl. trace (snd (CheckHTTP env target t ip w)) = trace w @ [HttpGet cl (probe_url target)]
                \<and> cl_forceIP cl = ip)"
proof -
  obtain cl w1 where G: "getHTTPClient ip t w = (cl, w1)" by (cases "getHTTPClient ip t w")
  from getHTTPClient_pinned[OF ok t, of ip] G
  have p: "cl_forceIP cl = ip" "cache_ok w1" "trace w1 = trace w" by simp_all
  have "snd (CheckHTTP env target t ip w) = w1
        \<or> snd (CheckHTTP env target t ip w) = emit (HttpGet cl (probe_url target)) w1"
    using G by (auto simp: CheckHTTP_def probe_url_def Let_def split: option.splits)
  thus "cache_ok (snd (CheckHTTP env target t ip w))"
    "trace (snd (CheckHTTP env target t ip w)) = trace w
         \<or> (\<exists>cl. trace (snd (CheckHTTP env target t ip w)) = trace w @ [HttpGet cl (probe_url target)]
                \<and> cl_forceIP cl = ip)"
    using p by (auto simp: cache_ok_def emit_def)
qed

lemma ping_loop_httpClients: "httpClients (snd (ping_loop env ctx host t n w)) = httpClients w"
  by (induction n arbitrary: w) (simp_all add: Let_def)

lemma CheckPing_cache: "cache_ok w \<Longrightarrow> cache_ok (snd (CheckPing env host t w))"
  by (simp add: CheckPing_def Let_def cache_ok_def ping_loop_httpClients)

lemma Timeout_positive: "0 \<le>s Timeout (ApplyDefaults r)"
  by (auto simp: ApplyDefaults_thresholds word_sle_eq)

lemma probe_cache: "cache_ok w \<Longrightarrow> cache_ok (snd (probe env (ApplyDefaults r) w))"
  using CheckHTTP_events(1)[OF _ Timeout_positive] CheckPing_cache
  by (simp add: probe_def Let_def)

lemma Handle_httpClients:
  "httpClients (snd (HandleFailure env m w)) = httpClients w"
  "httpClients (snd (HandleSuccess env m w)) = httpClients w"
proof -
  obtain ok m1 w1 where U: "UpdateCloudflareDNS env (m\<lparr>FailCount := FailCount m + 1\<rparr>) (BackupIP m) w = (ok, m1, w1)"
    by (cases "UpdateCloudflareDNS env (m\<lparr>FailCount := FailCount m + 1\<rparr>) (BackupIP m) w") auto
  show "httpClients (snd (HandleFailure env m w)) = httpClients w"
    using U Update_summary(3)[OF U] by (auto simp: HandleFailure_def Let_def)
  obtain ok' m1' w1' where U': "UpdateCloudflareDNS env (m\<lparr>SuccCount := SuccCount m + 1\<rparr>) (OriginalIP m) w = (ok', m1', w1')"
    by (cases "UpdateCloudflareDNS env (m\<lparr>SuccCount := SuccCount m + 1\<rparr>) (OriginalIP m) w") auto
  show "httpClients (snd (HandleSuccess env m w)) = httpClients w"
    using U' Update_summary(3)[OF U'] by (auto simp: HandleSuccess_def Let_def)
qed

lemma CheckMonitor_cache:
  assumes "cache_ok w"
  shows "cache_ok (CheckMonitor env k w)"
proof (cases "db_first k w")
  case None
  thus ?thesis using assms by (simp add: CheckMonitor_def)
next
  case (Some r)
  let ?m = "ApplyDefaults r"
  let ?w1 = "snd (probe env ?m w)"
  have "httpClients (CheckMonitor env k w) = httpClients ?w1"
    using Some Handle_httpClients[of env ?m ?w1]
    by (simp add: CheckMonitor_def Let_def split: prod.splits if_splits)
       (metis snd_conv)
  thus ?thesis using probe_cache[OF assms, of env r] by (simp add: cache_ok_def)
qed

lemma probe_cong:
  assumes "OriginalIP m' = OriginalIP m" "Target m' = Target m" "Type m' = Type m"
    "Timeout m' = Timeout m"
  shows "probe env m' w = probe env m w"
  unfolding probe_def Let_def assms by (rule refl)

lemma probe_ignores_state:
  "probe env (ApplyDefaults (r\<lparr>Status := s, CurrentIP := c\<rparr>)) w = probe env (ApplyDefaults r) w"
  by (rule probe_cong) (simp_all add: ApplyDefaults_thresholds)

lemma probe_ping:
  assumes "Type (ApplyDefaults r) \<noteq> ''http'' \<and> Type (ApplyDefaults r) \<noteq> ''https''"
  shows "probe env (ApplyDefaults r) w
          = CheckPing env (if OriginalIP r = [] then Target r else OriginalIP r)
              (Timeout (ApplyDefaults r)) w"
proof -
  have "Type (ApplyDefaults r) \<noteq> ''http''" "Type (ApplyDefaults r) \<noteq> ''https''"
    using assms by blast+
  thus ?thesis unfolding probe_def Let_def by simp
qed

lemma probe_http:
  assumes "Type (ApplyDefaults r) = ''http'' \<or> Type (ApplyDefaults r) = ''https''"
  shows "probe env (ApplyDefaults r) w
          = CheckHTTP env (Target r) (Timeout (ApplyDefaults r)) (OriginalIP r) w"
  using assms unfolding probe_def Let_def by (elim disjE) simp_all


section \<open>Theorems\<close>

subsection \<open>C1: the current address\<close>

text \<open>
  C1 says that the current address is always the primary or the backup address. A
  scheduled rotation that succeeds sets it to the target of the schedule, which is
  neither for the monitor of the scenarios and the target \<open>3.3.3.3\<close>.
\<close>

theorem current_ip_counterexample:
  "map_option (\<lambda>r. (CurrentIP r, OriginalIP r, BackupIP r))
     (db_first 1 (ScheduledSwitch scn_env 1 ''3.3.3.3'' (scn_world scn_monitor)))
   = Some (''3.3.3.3'', ''1.1.1.1'', ''2.2.2.2'')"
  by code_simp

text \<open>
  C1, as the code has it. A monitor that is created, by the controller or by the seeding
  of a name the database does not have, starts with the primary address as its current
  address. Every operation of the engine on it (periodic check, scheduled rotation,
  manual restore) leaves the primary and the backup address of the row alone, and the
  current address after any run of such operations is the primary address, the backup
  address or the target of one of the rotations of the run: a check or a restore never
  introduces another address, a rotation introduces its target.
\<close>

theorem current_ip_invariant:
  "(CreateMonitor env input w = (OK created, w') \<longrightarrow>
      CurrentIP created = OriginalIP created \<and> created \<in> set (db w'))
   \<and> (db_first_by_name (mc_Name mc) w = None \<longrightarrow>
        (\<exists>created. db (seed_monitor env mc w) = db w @ [created]
            \<and> CurrentIP created = OriginalIP created))
   \<and> (db_first k w = Some r
        \<and> CurrentIP r \<in> {OriginalIP r, BackupIP r} \<union> {ip. Rotate ip \<in> set ops} \<longrightarrow>
        (\<exists>r'. db_first k (engine_run env k ops w) = Some r'
            \<and> OriginalIP r' = OriginalIP r \<and> BackupIP r' = BackupIP r
            \<and> CurrentIP r' \<in> {OriginalIP r', BackupIP r'} \<union> {ip. Rotate ip \<in> set ops}))"
proof (intro conjI impI)
  assume "CreateMonitor env input w = (OK created, w')"
  thus "CurrentIP created = OriginalIP created" "created \<in> set (db w')"
    by (rule CreateMonitor_OK(1), rule CreateMonitor_OK(3))
next
  assume "db_first_by_name (mc_Name mc) w = None"
  from seed_monitor_new[OF this, of env]
  show "\<exists>created. db (seed_monitor env mc w) = db w @ [created]
            \<and> CurrentIP created = OriginalIP created" by blast
next
  assume a: "db_first k w = Some r
        \<and> CurrentIP r \<in> {OriginalIP r, BackupIP r} \<union> {ip. Rotate ip \<in> set ops}"
  have "\<exists>r'. db_first k (engine_run env k ops w) = Some r'
           \<and> OriginalIP r' = OriginalIP r \<and> BackupIP r' = BackupIP r
           \<and> CurrentIP r' \<in> {OriginalIP r, BackupIP r} \<union> {ip. Rotate ip \<in> set ops}"
    by (rule engine_run_CurrentIP) (use a in simp_all)
  thus "\<exists>r'. db_first k (engine_run env k ops w) = Some r'
            \<and> OriginalIP r' = OriginalIP r \<and> BackupIP r' = BackupIP r
            \<and> CurrentIP r' \<in> {OriginalIP r', BackupIP r'} \<union> {ip. Rotate ip \<in> set ops}"
    by auto
qed

theorem current_ip_invariant_witness:
  "(\<exists>created. fst (CreateMonitor scn_env scn_config (scn_world scn_monitor)) = OK created
       \<and> CurrentIP created = OriginalIP created
       \<and> created \<in> set (db (snd (CreateMonitor scn_env scn_config (scn_world scn_monitor)))))
   \<and> db_first_by_name (mc_Name scn_config) (scn_world scn_monitor) = None
   \<and> (\<exists>created. db (seed_monitor scn_env scn_config (scn_world scn_monitor))
                   = db (scn_world scn_monitor) @ [created]
          \<and> CurrentIP created = OriginalIP created)
   \<and> db_first 1 (scn_world scn_monitor) = Some scn_monitor
   \<and> CurrentIP scn_monitor \<in> {OriginalIP scn_monitor, BackupIP scn_monitor}
        \<union> {ip. Rotate ip \<in> set [Check, Rotate ''3.3.3.3'', Restore, Check]}
   \<and> (\<exists>r'. db_first 1 (engine_run scn_env 1 [Check, Rotate ''3.3.3.3'', Restore, Check]
                          (scn_world scn_monitor)) = Some r'
          \<and> CurrentIP r' \<in> {OriginalIP r', BackupIP r'}
               \<union> {ip. Rotate ip \<in> set [Check, Rotate ''3.3.3.3'', Restore, Check]})"
proof -
  obtain c where c: "fst (CreateMonitor scn_env scn_config (scn_world scn_monitor)) = OK c"
    using scn_create by (cases "fst (CreateMonitor scn_env scn_config (scn_world scn_monitor))") auto
  hence c': "CreateMonitor scn_env scn_config (scn_world scn_monitor)
             = (OK c, snd (CreateMonitor scn_env scn_config (scn_world scn_monitor)))"
    by (metis prod.collapse)
  have n: "db_first_by_name (mc_Name scn_config) (scn_world scn_monitor) = None"
    by (simp add: db_first_by_name_def scn_config_def scn_world_def scn_monitor_def)
  have f: "db_first 1 (scn_world scn_monitor) = Some scn_monitor"
    by (simp add: db_first_def scn_world_def scn_monitor_def)
  have i: "CurrentIP scn_monitor \<in> {OriginalIP scn_monitor, BackupIP scn_monitor}
        \<union> {ip. Rotate ip \<in> set [Check, Rotate ''3.3.3.3'', Restore, Check]}"
    by (simp add: scn_monitor_def)
  show ?thesis
    using current_ip_invariant
            [of scn_env scn_config "scn_world scn_monitor" c
                "snd (CreateMonitor scn_env scn_config (scn_world scn_monitor))"
                scn_config 1 scn_monitor "[Check, Rotate ''3.3.3.3'', Restore, Check]"]
          c c' n f i
    by auto
qed

subsection \<open>C2: no switch without acknowledgement\<close>

text \<open>
  C2 says that status and current address change only after a successful update of the
  DNS record. The manual restore sets both before its update and saves them whatever
  the update returned: with a provider that rejects the request, a monitor that is
  \<open>Down\<close> on \<open>2.2.2.2\<close> is \<open>Normal\<close> on \<open>1.1.1.1\<close> afterwards.
\<close>

theorem restore_without_ack_counterexample:
  "map_option (\<lambda>r. (Status r, CurrentIP r)) (db_first 1 (scn_world scn_monitor_down))
     = Some (''Down'', ''2.2.2.2'')
   \<and> \<not> dns_ack scn_env_rejecting
          (scn_monitor_down\<lparr>Status := ''Normal'', FailCount := 0, SuccCount := 0,
                             CurrentIP := ''1.1.1.1'', LastCheck := 0\<rparr>)
          ''1.1.1.1'' (scn_world scn_monitor_down)
   \<and> map_option (\<lambda>r. (Status r, CurrentIP r))
        (db_first 1 (snd (RestoreMonitor scn_env_rejecting 1 (scn_world scn_monitor_down))))
     = Some (''Normal'', ''1.1.1.1'')
   \<and> length (trace (snd (RestoreMonitor scn_env_rejecting 1 (scn_world scn_monitor_down)))) = 1"
  by code_simp

text \<open>
  C2, as the code has it. In a periodic check, status or current address change if and
  only if the handler reached its threshold and the DNS update it then issued returned
  success; then the status flips and the current address becomes the backup address (on
  a failure) or the primary address (on a success), and the row saved by \<open>CheckMonitor\<close>
  has the status and address the handler returns. A scheduled rotation never changes the
  status; it changes the current address only if the monitor is not \<open>Down\<close> and its DNS
  update returned success, and then the address is the target. A manual restore always
  ends with status \<open>Normal\<close> and the primary address as current address, whatever its
  DNS update returned.
\<close>

theorem switch_needs_ack:
  "((Status (fst (HandleFailure env m w0)) \<noteq> Status m
       \<or> CurrentIP (fst (HandleFailure env m w0)) \<noteq> CurrentIP m)
      \<longrightarrow> Status m = ''Normal'' \<and> Retries m \<le>s FailCount m + 1
          \<and> dns_ack env (m\<lparr>FailCount := FailCount m + 1\<rparr>) (BackupIP m) w0)
   \<and> (Status m = ''Normal'' \<and> Retries m \<le>s FailCount m + 1
        \<and> dns_ack env (m\<lparr>FailCount := FailCount m + 1\<rparr>) (BackupIP m) w0
      \<longrightarrow> Status (fst (HandleFailure env m w0)) = ''Down''
          \<and> CurrentIP (fst (HandleFailure env m w0)) = BackupIP m)
   \<and> ((Status (fst (HandleSuccess env m w0)) \<noteq> Status m
       \<or> CurrentIP (fst (HandleSuccess env m w0)) \<noteq> CurrentIP m)
      \<longrightarrow> Status m = ''Down'' \<and> threshold m \<le>s SuccCount m + 1
          \<and> dns_ack env (m\<lparr>SuccCount := SuccCount m + 1\<rparr>) (OriginalIP m) w0)
   \<and> (Status m = ''Down'' \<and> threshold m \<le>s SuccCount m + 1
        \<and> dns_ack env (m\<lparr>SuccCount := SuccCount m + 1\<rparr>) (OriginalIP m) w0
      \<longrightarrow> Status (fst (HandleSuccess env m w0)) = ''Normal''
          \<and> CurrentIP (fst (HandleSuccess env m w0)) = OriginalIP m)
   \<and> (db_first k w = Some r \<longrightarrow>
        (\<exists>r'. db_first k (CheckMonitor env k w) = Some r'
            \<and> Status r' = Status (fst (handled env r w))
            \<and> CurrentIP r' = CurrentIP (fst (handled env r w)))
        \<and> (\<exists>r'. db_first k (ScheduledSwitch env k ip w) = Some r'
            \<and> Status r' = Status r
            \<and> (CurrentIP r' \<noteq> CurrentIP r \<longrightarrow> Status r \<noteq> ''Down'' \<and> dns_ack env r ip w)
            \<and> (Status r \<noteq> ''Down'' \<and> dns_ack env r ip w \<longrightarrow> CurrentIP r' = ip))
        \<and> (\<exists>r'. db_first k (snd (RestoreMonitor env k w)) = Some r'
            \<and> Status r' = ''Normal'' \<and> CurrentIP r' = OriginalIP r))"
proof -
  obtain mf wf' where HF: "HandleFailure env m w0 = (mf, wf')" by (cases "HandleFailure env m w0")
  obtain ms ws' where HS: "HandleSuccess env m w0 = (ms, ws')" by (cases "HandleSuccess env m w0")
  let ?af = "Retries m \<le>s FailCount m + 1
             \<and> dns_ack env (m\<lparr>FailCount := FailCount m + 1\<rparr>) (BackupIP m) w0"
  let ?as = "threshold m \<le>s SuccCount m + 1
             \<and> dns_ack env (m\<lparr>SuccCount := SuccCount m + 1\<rparr>) (OriginalIP m) w0"
  have f: "(Status mf \<noteq> Status m \<or> CurrentIP mf \<noteq> CurrentIP m) \<longrightarrow> Status m = ''Normal'' \<and> ?af"
    using HandleFailure_result[OF HF] by (cases "Status m = ''Normal''"; cases ?af) auto
  have f': "Status m = ''Normal'' \<and> ?af \<longrightarrow> Status mf = ''Down'' \<and> CurrentIP mf = BackupIP m"
    using HandleFailure_result(1)[OF HF] by blast
  have s: "(Status ms \<noteq> Status m \<or> CurrentIP ms \<noteq> CurrentIP m) \<longrightarrow> Status m = ''Down'' \<and> ?as"
    using HandleSuccess_result[OF HS] by (cases "Status m = ''Down''"; cases ?as) auto
  have s': "Status m = ''Down'' \<and> ?as \<longrightarrow> Status ms = ''Normal'' \<and> CurrentIP ms = OriginalIP m"
    using HandleSuccess_result(1)[OF HS] by blast
  have d: "db_first k w = Some r \<longrightarrow>
        (\<exists>r'. db_first k (CheckMonitor env k w) = Some r'
            \<and> Status r' = Status (fst (handled env r w))
            \<and> CurrentIP r' = CurrentIP (fst (handled env r w)))
        \<and> (\<exists>r'. db_first k (ScheduledSwitch env k ip w) = Some r'
            \<and> Status r' = Status r
            \<and> (CurrentIP r' \<noteq> CurrentIP r \<longrightarrow> Status r \<noteq> ''Down'' \<and> dns_ack env r ip w)
            \<and> (Status r \<noteq> ''Down'' \<and> dns_ack env r ip w \<longrightarrow> CurrentIP r' = ip))
        \<and> (\<exists>r'. db_first k (snd (RestoreMonitor env k w)) = Some r'
            \<and> Status r' = ''Normal'' \<and> CurrentIP r' = OriginalIP r)"
  proof (intro impI conjI)
    assume r: "db_first k w = Some r"
    from CheckMonitor_row[OF r, of env]
    show "\<exists>r'. db_first k (CheckMonitor env k w) = Some r'
            \<and> Status r' = Status (fst (handled env r w))
            \<and> CurrentIP r' = CurrentIP (fst (handled env r w))" by auto
    from ScheduledSwitch_row[OF r, of env ip] obtain g where
      g: "rid_only g" "db_first k (ScheduledSwitch env k ip w) =
         Some (if Status r \<noteq> ''Down'' \<and> dns_ack env r ip w
               then (g r)\<lparr>CurrentIP := ip, FailCount := 0, SuccCount := 0\<rparr> else g r)" by blast
    show "\<exists>r'. db_first k (ScheduledSwitch env k ip w) = Some r'
            \<and> Status r' = Status r
            \<and> (CurrentIP r' \<noteq> CurrentIP r \<longrightarrow> Status r \<noteq> ''Down'' \<and> dns_ack env r ip w)
            \<and> (Status r \<noteq> ''Down'' \<and> dns_ack env r ip w \<longrightarrow> CurrentIP r' = ip)"
      using g by (cases "Status r \<noteq> ''Down'' \<and> dns_ack env r ip w") auto
    from RestoreMonitor_row[OF r, of env]
    show "\<exists>r'. db_first k (snd (RestoreMonitor env k w)) = Some r'
            \<and> Status r' = ''Normal'' \<and> CurrentIP r' = OriginalIP r" by auto
  qed
  show ?thesis using f f' s s' d unfolding HF HS fst_conv by blast
qed

theorem switch_needs_ack_witness:
  "Status (scn_monitor\<lparr>FailCount := 2\<rparr>) = ''Normal''
   \<and> Retries (scn_monitor\<lparr>FailCount := 2\<rparr>) \<le>s FailCount (scn_monitor\<lparr>FailCount := 2\<rparr>) + 1
   \<and> dns_ack scn_env (scn_monitor\<lparr>FailCount := 3\<rparr>) ''2.2.2.2'' (scn_world scn_monitor)
   \<and> Status (fst (HandleFailure scn_env (scn_monitor\<lparr>FailCount := 2\<rparr>) (scn_world scn_monitor)))
       = ''Down''
   \<and> CurrentIP (fst (HandleFailure scn_env (scn_monitor\<lparr>FailCount := 2\<rparr>) (scn_world scn_monitor)))
       = ''2.2.2.2''
   \<and> Status (scn_monitor_down\<lparr>SuccCount := 1\<rparr>) = ''Down''
   \<and> threshold (scn_monitor_down\<lparr>SuccCount := 1\<rparr>) \<le>s SuccCount (scn_monitor_down\<lparr>SuccCount := 1\<rparr>) + 1
   \<and> dns_ack scn_env (scn_monitor_down\<lparr>SuccCount := 2\<rparr>) ''1.1.1.1'' (scn_world scn_monitor)
   \<and> Status (fst (HandleSuccess scn_env (scn_monitor_down\<lparr>SuccCount := 1\<rparr>) (scn_world scn_monitor)))
       = ''Normal''
   \<and> CurrentIP (fst (HandleSuccess scn_env (scn_monitor_down\<lparr>SuccCount := 1\<rparr>) (scn_world scn_monitor)))
       = ''1.1.1.1''
   \<and> db_first 1 (scn_world scn_monitor) = Some scn_monitor
   \<and> Status scn_monitor \<noteq> ''Down''
   \<and> dns_ack scn_env scn_monitor ''3.3.3.3'' (scn_world scn_monitor)
   \<and> (\<exists>r'. db_first 1 (ScheduledSwitch scn_env 1 ''3.3.3.3'' (scn_world scn_monitor)) = Some r'
          \<and> Status r' = Status scn_monitor \<and> CurrentIP r' = ''3.3.3.3'')
   \<and> (\<exists>r'. db_first 1 (snd (RestoreMonitor scn_env 1 (scn_world scn_monitor))) = Some r'
          \<and> Status r' = ''Normal'' \<and> CurrentIP r' = OriginalIP scn_monitor)"
proof -
  have v1: "Status (scn_monitor\<lparr>FailCount := 2\<rparr>) = ''Normal''"
    "Retries (scn_monitor\<lparr>FailCount := 2\<rparr>) \<le>s FailCount (scn_monitor\<lparr>FailCount := 2\<rparr>) + 1"
    "(scn_monitor\<lparr>FailCount := 2\<rparr>)\<lparr>FailCount := FailCount (scn_monitor\<lparr>FailCount := 2\<rparr>) + 1\<rparr>
       = scn_monitor\<lparr>FailCount := 3\<rparr>"
    "BackupIP (scn_monitor\<lparr>FailCount := 2\<rparr>) = ''2.2.2.2''"
    by (simp_all add: scn_monitor_def word_sle_eq)
  have v2: "Status (scn_monitor_down\<lparr>SuccCount := 1\<rparr>) = ''Down''"
    "threshold (scn_monitor_down\<lparr>SuccCount := 1\<rparr>) \<le>s SuccCount (scn_monitor_down\<lparr>SuccCount := 1\<rparr>) + 1"
    "(scn_monitor_down\<lparr>SuccCount := 1\<rparr>)\<lparr>SuccCount := SuccCount (scn_monitor_down\<lparr>SuccCount := 1\<rparr>) + 1\<rparr>
       = scn_monitor_down\<lparr>SuccCount := 2\<rparr>"
    "OriginalIP (scn_monitor_down\<lparr>SuccCount := 1\<rparr>) = ''1.1.1.1''"
    by (simp_all add: scn_monitor_down_def scn_monitor_def threshold_def word_sle_eq)
  have a1: "dns_ack scn_env (scn_monitor\<lparr>FailCount := 3\<rparr>) ''2.2.2.2'' (scn_world scn_monitor)"
    by code_simp
  have a2: "dns_ack scn_env (scn_monitor_down\<lparr>SuccCount := 2\<rparr>) ''1.1.1.1'' (scn_world scn_monitor)"
    by code_simp
  have a3: "dns_ack scn_env scn_monitor ''3.3.3.3'' (scn_world scn_monitor)"
    by code_simp
  have v3: "db_first 1 (scn_world scn_monitor) = Some scn_monitor" "Status scn_monitor \<noteq> ''Down''"
    by (simp_all add: db_first_def scn_world_def scn_monitor_def)
  note T1 = switch_needs_ack [of scn_env "scn_monitor\<lparr>FailCount := 2\<rparr>" "scn_world scn_monitor"
            1 "scn_world scn_monitor" scn_monitor "''3.3.3.3''"]
  note T2 = switch_needs_ack [of scn_env "scn_monitor_down\<lparr>SuccCount := 1\<rparr>" "scn_world scn_monitor"
            1 "scn_world scn_monitor" scn_monitor "''3.3.3.3''"]
  have f: "Status (fst (HandleFailure scn_env (scn_monitor\<lparr>FailCount := 2\<rparr>) (scn_world scn_monitor)))
       = ''Down''
   \<and> CurrentIP (fst (HandleFailure scn_env (scn_monitor\<lparr>FailCount := 2\<rparr>) (scn_world scn_monitor)))
       = ''2.2.2.2''"
    using T1[THEN conjunct2, THEN conjunct1] v1 a1 by simp
  have s: "Status (fst (HandleSuccess scn_env (scn_monitor_down\<lparr>SuccCount := 1\<rparr>) (scn_world scn_monitor)))
       = ''Normal''
   \<and> CurrentIP (fst (HandleSuccess scn_env (scn_monitor_down\<lparr>SuccCount := 1\<rparr>) (scn_world scn_monitor)))
       = ''1.1.1.1''"
    using T2[THEN conjunct2, THEN conjunct2, THEN conjunct2, THEN conjunct1] v2 a2 by simp
  note D = T1[THEN conjunct2, THEN conjunct2, THEN conjunct2, THEN conjunct2, rule_format, OF v3(1)]
  have r: "\<exists>r'. db_first 1 (ScheduledSwitch scn_env 1 ''3.3.3.3'' (scn_world scn_monitor)) = Some r'
          \<and> Status r' = Status scn_monitor \<and> CurrentIP r' = ''3.3.3.3''"
    using D[THEN conjunct2, THEN conjunct1] v3(2) a3 by blast
  have m: "\<exists>r'. db_first 1 (snd (RestoreMonitor scn_env 1 (scn_world scn_monitor))) = Some r'
          \<and> Status r' = ''Normal'' \<and> CurrentIP r' = OriginalIP scn_monitor"
    using D[THEN conjunct2, THEN conjunct2] by blast
  show ?thesis
    using v1(1,2) a1 f v2(1,2) a2 s v3 a3 r m by blast
qed

subsection \<open>C3: hysteresis\<close>

text \<open>
  C3. Take a monitor whose counters are zero (as after its creation, a restore or a
  rotation) and deliver it check results one after the other. If its status is \<open>Normal\<close>
  after \<open>n\<close> checks and \<open>Down\<close> after the next, then the results so far end with at
  least \<open>failure_threshold\<close> results \<open>down\<close> in a row; if it is \<open>Down\<close> after \<open>n\<close>
  checks and \<open>Normal\<close> after the next, they end with at least \<open>recovery_threshold\<close>
  results \<open>up\<close> in a row. The thresholds are those of the row after \<open>ApplyDefaults\<close>:
  at least 1, and the configured ones when these are positive. The counters are machine
  integers; the statement holds with their wrap-around.
\<close>

theorem hysteresis:
  assumes r: "db_first k w = Some r"
    and st: "Status r = ''Normal'' \<or> Status r = ''Down''"
    and c0: "FailCount r = 0" "SuccCount r = 0"
  shows "(status_after env k n w = ''Normal'' \<and> status_after env k (Suc n) w = ''Down'' \<longrightarrow>
            nat (sint (Retries (ApplyDefaults r))) \<le> run_length False (results env k (Suc n) w))
       \<and> (status_after env k n w = ''Down'' \<and> status_after env k (Suc n) w = ''Normal'' \<longrightarrow>
            nat (sint (threshold (ApplyDefaults r))) \<le> run_length True (results env k (Suc n) w))
       \<and> 1 \<le> sint (Retries (ApplyDefaults r)) \<and> 1 \<le> sint (threshold (ApplyDefaults r))
       \<and> (0 <s Retries r \<longrightarrow> Retries (ApplyDefaults r) = Retries r)
       \<and> (0 <s RecoveryRetries r \<longrightarrow> threshold (ApplyDefaults r) = RecoveryRetries r)"
proof -
  have inv0: "counts_ok r []" using st c0 by (auto simp: counts_ok_def)
  from counts_run[OF r inv0, of env n] obtain rn where
    rn: "db_first k (checks env k n w) = Some rn"
    "Retries rn = Retries r" "RecoveryRetries rn = RecoveryRetries r"
    "counts_ok rn (results env k n w)" by blast
  from counts_step[OF rn(1) rn(4), of env] obtain r' where
    r': "db_first k (checks env k (Suc n) w) = Some r'"
    and tr: "Status rn = ''Normal'' \<and> Status r' = ''Down'' \<longrightarrow>
          Retries (ApplyDefaults rn) \<le>s of_nat (run_length False (results env k (Suc n) w))"
       "Status rn = ''Down'' \<and> Status r' = ''Normal'' \<longrightarrow>
          threshold (ApplyDefaults rn) \<le>s of_nat (run_length True (results env k (Suc n) w))"
    by (auto simp: results_Suc)
  have sa: "status_after env k n w = Status rn" "status_after env k (Suc n) w = Status r'"
    using rn(1) r' by (simp_all add: status_after_def)
  note tc = thresholds_cong[OF rn(2,3)]
  note tp = thresholds_positive[of r]
  have down: "status_after env k n w = ''Normal'' \<and> status_after env k (Suc n) w = ''Down'' \<longrightarrow>
            nat (sint (Retries (ApplyDefaults r))) \<le> run_length False (results env k (Suc n) w)"
    using tr(1) sle_of_nat_bound[OF tp(1)] unfolding sa tc by blast
  have up: "status_after env k n w = ''Down'' \<and> status_after env k (Suc n) w = ''Normal'' \<longrightarrow>
            nat (sint (threshold (ApplyDefaults r))) \<le> run_length True (results env k (Suc n) w)"
    using tr(2) sle_of_nat_bound[OF tp(2)] unfolding sa tc by blast
  have cfg: "0 <s Retries r \<longrightarrow> Retries (ApplyDefaults r) = Retries r"
    "0 <s RecoveryRetries r \<longrightarrow> threshold (ApplyDefaults r) = RecoveryRetries r"
    by (auto simp: threshold_def ApplyDefaults_thresholds word_sle_eq word_sless_alt)
  show ?thesis using down up tp cfg by blast
qed

theorem hysteresis_witness:
  "db_first 1 (scn_world scn_monitor) = Some scn_monitor
   \<and> Status scn_monitor = ''Normal'' \<and> FailCount scn_monitor = 0 \<and> SuccCount scn_monitor = 0
   \<and> status_after scn_env 1 2 (scn_world scn_monitor) = ''Normal''
   \<and> status_after scn_env 1 (Suc 2) (scn_world scn_monitor) = ''Down''
   \<and> nat (sint (Retries (ApplyDefaults scn_monitor)))
       \<le> run_length False (results scn_env 1 (Suc 2) (scn_world scn_monitor))
   \<and> Retries (ApplyDefaults scn_monitor) = 3
   \<and> db_first 1 (scn_world scn_monitor_down) = Some scn_monitor_down
   \<and> Status scn_monitor_down = ''Down''
   \<and> FailCount scn_monitor_down = 0 \<and> SuccCount scn_monitor_down = 0
   \<and> status_after scn_env_up 1 1 (scn_world scn_monitor_down) = ''Down''
   \<and> status_after scn_env_up 1 (Suc 1) (scn_world scn_monitor_down) = ''Normal''
   \<and> nat (sint (threshold (ApplyDefaults scn_monitor_down)))
       \<le> run_length True (results scn_env_up 1 (Suc 1) (scn_world scn_monitor_down))
   \<and> threshold (ApplyDefaults scn_monitor_down) = 2"
proof -
  have a: "db_first 1 (scn_world scn_monitor) = Some scn_monitor"
    "Status scn_monitor = ''Normal''" "FailCount scn_monitor = 0" "SuccCount scn_monitor = 0"
    by (simp_all add: db_first_def scn_world_def scn_monitor_def)
  have b: "db_first 1 (scn_world scn_monitor_down) = Some scn_monitor_down"
    "Status scn_monitor_down = ''Down''" "FailCount scn_monitor_down = 0"
    "SuccCount scn_monitor_down = 0"
    by (simp_all add: db_first_def scn_world_def scn_monitor_down_def scn_monitor_def)
  have s1: "status_after scn_env 1 2 (scn_world scn_monitor) = ''Normal''" by code_simp
  have s2: "status_after scn_env 1 (Suc 2) (scn_world scn_monitor) = ''Down''" by code_simp
  have s3: "status_after scn_env_up 1 1 (scn_world scn_monitor_down) = ''Down''" by code_simp
  have s4: "status_after scn_env_up 1 (Suc 1) (scn_world scn_monitor_down) = ''Normal''"
    by code_simp
  have t: "Retries (ApplyDefaults scn_monitor) = 3" "threshold (ApplyDefaults scn_monitor_down) = 2"
    by code_simp+
  have st1: "Status scn_monitor = ''Normal'' \<or> Status scn_monitor = ''Down''" using a(2) by simp
  have st2: "Status scn_monitor_down = ''Normal'' \<or> Status scn_monitor_down = ''Down''"
    using b(2) by simp
  note h1 = hysteresis[OF a(1) st1 a(3) a(4), of scn_env 2]
  note h2 = hysteresis[OF b(1) st2 b(3) b(4), of scn_env_up 1]
  show ?thesis using a b s1 s2 s3 s4 t h1 h2 by blast
qed


subsection \<open>C4: the threshold of the recovery\<close>

text \<open>
  C4 says that a monitor configured with recovery threshold zero recovers after
  \<open>failure_threshold\<close> successes. The periodic check applies the defaults to the row
  before it counts: with recovery threshold 0 and failure threshold 5, a monitor that is
  \<open>Down\<close> with one success counted is switched back by its next successful check, the
  second success, not the fifth.
\<close>

theorem recovery_threshold_cascade_counterexample:
  "RecoveryRetries (scn_monitor_down\<lparr>RecoveryRetries := 0, Retries := 5, SuccCount := 1\<rparr>) = 0
   \<and> Retries (scn_monitor_down\<lparr>RecoveryRetries := 0, Retries := 5, SuccCount := 1\<rparr>) = 5
   \<and> threshold (ApplyDefaults (scn_monitor_down\<lparr>RecoveryRetries := 0, Retries := 5,
                                                     SuccCount := 1\<rparr>)) = 2
   \<and> map_option (\<lambda>r. (Status r, SuccCount r, CurrentIP r))
        (db_first 1 (CheckMonitor scn_env_up 1
           (scn_world (scn_monitor_down\<lparr>RecoveryRetries := 0, Retries := 5, SuccCount := 1\<rparr>))))
      = Some (''Normal'', 0, ''1.1.1.1'')"
  by code_simp

text \<open>
  C4, as the code has it. \<open>HandleSuccess\<close> on its own has the cascade: its threshold is
  the recovery threshold, the failure threshold when the former is zero, and 3 when both
  are zero. But \<open>CheckMonitor\<close>, its only caller, passes it the row after
  \<open>ApplyDefaults\<close>, whose recovery threshold is never zero: for a monitor configured
  with a recovery threshold of zero (or less) the threshold in force is 2, whatever the
  failure threshold, and below it a successful check of a \<open>Down\<close> monitor only counts.
\<close>

theorem recovery_threshold_effective:
  "(RecoveryRetries m = 0 \<longrightarrow> threshold m = (if Retries m = 0 then 3 else Retries m))
   \<and> (RecoveryRetries m \<noteq> 0 \<longrightarrow> threshold m = RecoveryRetries m)
   \<and> threshold (ApplyDefaults m) = (if RecoveryRetries m \<le>s 0 then 2 else RecoveryRetries m)
   \<and> 0 <s threshold (ApplyDefaults m)
   \<and> (Status m = ''Down'' \<and> \<not> threshold (ApplyDefaults m) \<le>s SuccCount m + 1 \<longrightarrow>
        HandleSuccess env (ApplyDefaults m) w = ((ApplyDefaults m)\<lparr>SuccCount := SuccCount m + 1\<rparr>, w))"
proof (intro conjI)
  show "RecoveryRetries m = 0 \<longrightarrow> threshold m = (if Retries m = 0 then 3 else Retries m)"
    by (simp add: threshold_def)
  show "RecoveryRetries m \<noteq> 0 \<longrightarrow> threshold m = RecoveryRetries m"
    by (simp add: threshold_def)
  show eff: "threshold (ApplyDefaults m) = (if RecoveryRetries m \<le>s 0 then 2 else RecoveryRetries m)"
    by (auto simp: threshold_def ApplyDefaults_thresholds)
  show "0 <s threshold (ApplyDefaults m)"
    unfolding eff by (auto simp: word_sle_eq word_sless_alt)
  show "Status m = ''Down'' \<and> \<not> threshold (ApplyDefaults m) \<le>s SuccCount m + 1 \<longrightarrow>
        HandleSuccess env (ApplyDefaults m) w = ((ApplyDefaults m)\<lparr>SuccCount := SuccCount m + 1\<rparr>, w)"
    by (simp add: HandleSuccess_def Let_def threshold_def)
qed

theorem recovery_threshold_effective_witness:
  "RecoveryRetries (scn_monitor_down\<lparr>RecoveryRetries := 0, Retries := 5\<rparr>) = 0
   \<and> threshold (scn_monitor_down\<lparr>RecoveryRetries := 0, Retries := 5\<rparr>) = 5
   \<and> threshold (ApplyDefaults (scn_monitor_down\<lparr>RecoveryRetries := 0, Retries := 5\<rparr>)) = 2
   \<and> RecoveryRetries scn_monitor_down \<noteq> 0
   \<and> threshold scn_monitor_down = 2
   \<and> Status scn_monitor_down = ''Down''
   \<and> \<not> threshold (ApplyDefaults scn_monitor_down) \<le>s SuccCount scn_monitor_down + 1
   \<and> HandleSuccess scn_env (ApplyDefaults scn_monitor_down) (scn_world scn_monitor_down)
      = ((ApplyDefaults scn_monitor_down)\<lparr>SuccCount := SuccCount scn_monitor_down + 1\<rparr>,
         scn_world scn_monitor_down)"
proof -
  have v: "RecoveryRetries (scn_monitor_down\<lparr>RecoveryRetries := 0, Retries := 5\<rparr>) = 0"
    "Retries (scn_monitor_down\<lparr>RecoveryRetries := 0, Retries := 5\<rparr>) = 5"
    "RecoveryRetries scn_monitor_down = 2" "Status scn_monitor_down = ''Down''"
    "SuccCount scn_monitor_down = 0"
    by (simp_all add: scn_monitor_down_def scn_monitor_def)
  show ?thesis
    using recovery_threshold_effective
            [of "scn_monitor_down\<lparr>RecoveryRetries := 0, Retries := 5\<rparr>" scn_env
                "scn_world scn_monitor_down"]
          recovery_threshold_effective [of scn_monitor_down scn_env "scn_world scn_monitor_down"]
    by (simp add: v word_sle_eq)
qed

subsection \<open>C5: the record handle\<close>

text \<open>
  C5. The seeding of a monitor that the database already has writes the record id of
  the configuration entry into the row. For the monitor of the scenarios, whose row
  holds the handle \<open>rec-1\<close>, and an entry of the configuration file that names the same
  zone, host name and record type and no record id, \<open>SeedMonitors\<close> leaves the row with
  an empty handle. (The other operations keep a handle that is not empty: see
  \<open>engine_keeps_record_id\<close> for the periodic check, the scheduled rotation and the manual
  restore, and \<open>UpdateMonitor_keeps_record_id\<close> for the admin update, which clears it
  only when the request changes the zone or the host name and gives no record id.)
\<close>

theorem seed_clears_record_id:
  "map_option (\<lambda>r. (CFRecordID r, CFZoneID r, CFDomain r, DNSType r))
     (db_first 1 (scn_world scn_monitor))
     = Some (''rec-1'', ''zone-1'', ''example.com'', ''A'')
   \<and> (mc_ZoneID scn_config_M1, mc_Domain scn_config_M1, mc_DNSType scn_config_M1)
     = (''zone-1'', ''example.com'', ''A'')
   \<and> map_option (\<lambda>r. (CFRecordID r, CFZoneID r, CFDomain r, DNSType r))
        (db_first 1 (SeedMonitors scn_env [scn_config_M1] (scn_world scn_monitor)))
     = Some ([], ''zone-1'', ''example.com'', ''A'')"
  by code_simp


subsection \<open>C6: the target of the probe\<close>

text \<open>
  C6 says that every probe of a periodic check goes to the primary address. For a
  monitor whose primary address is empty (the field is optional) and whose check is over
  HTTPS, the client of the probe is not pinned: it connects to the address the host of
  the URL resolves to, and during a failover that is not the primary.
\<close>

theorem unpinned_probe_counterexample:
  "OriginalIP scn_monitor_unpinned = [] \<and> Status scn_monitor_unpinned = ''Down''
   \<and> Type scn_monitor_unpinned = ''https''
   \<and> trace (snd (probe scn_env (ApplyDefaults scn_monitor_unpinned)
                   (scn_world scn_monitor_unpinned)))
      = [HttpGet \<lparr>cl_Timeout = 5000000000, cl_forceIP = []\<rparr> ''https://example.com'']
   \<and> DialContext scn_env \<lparr>cl_Timeout = 5000000000, cl_forceIP = []\<rparr> ''example.com:443''
      = ''example.com:443''"
  by code_simp

text \<open>
  C6, as the code has it. The probe of a periodic check is chosen from the primary
  address, the target, the type and the timeout of the row, never from its status or
  current address. A check that is not over HTTP or HTTPS pings the primary address, or
  the target when the primary address is empty (the host is the last argument of the
  command). A check over HTTP or HTTPS requests the configured URL (with \<open>http://\<close>
  put before a target that does not start with \<open>http\<close>) through the cached client for
  the primary address, which (the cache being keyed as \<open>getHTTPClient\<close> keys it) is
  pinned to that address: when the primary address is not empty its transport connects
  to the primary address and the port of the URL's host and port; when it is empty, the
  transport connects to the address it is asked for.
\<close>

theorem probe_pinned_to_primary:
  assumes ok: "cache_ok w"
  shows "probe env (ApplyDefaults (r\<lparr>Status := s, CurrentIP := c\<rparr>)) w = probe env (ApplyDefaults r) w
   \<and> (Type (ApplyDefaults r) \<noteq> ''http'' \<and> Type (ApplyDefaults r) \<noteq> ''https'' \<longrightarrow>
        probe env (ApplyDefaults r) w
          = CheckPing env (if OriginalIP r = [] then Target r else OriginalIP r)
              (Timeout (ApplyDefaults r)) w)
   \<and> last (ping_cmd env host t) = host
   \<and> (Type (ApplyDefaults r) = ''http'' \<or> Type (ApplyDefaults r) = ''https'' \<longrightarrow>
        probe env (ApplyDefaults r) w
          = CheckHTTP env (Target r) (Timeout (ApplyDefaults r)) (OriginalIP r) w
        \<and> (trace (snd (probe env (ApplyDefaults r) w)) = trace w
            \<or> (\<exists>cl. trace (snd (probe env (ApplyDefaults r) w))
                       = trace w @ [HttpGet cl (probe_url (Target r))]
                  \<and> cl_forceIP cl = OriginalIP r)))
   \<and> (cl_forceIP cl \<noteq> [] \<and> SplitHostPort env addr = Some (h, port) \<longrightarrow>
        DialContext env cl addr = JoinHostPort env (cl_forceIP cl) port)
   \<and> (cl_forceIP cl = [] \<longrightarrow> DialContext env cl addr = addr)
   \<and> cache_ok (CheckMonitor env k w)"
proof (intro conjI impI)
  show "probe env (ApplyDefaults (r\<lparr>Status := s, CurrentIP := c\<rparr>)) w = probe env (ApplyDefaults r) w"
    by (rule probe_ignores_state)
next
  assume "Type (ApplyDefaults r) \<noteq> ''http'' \<and> Type (ApplyDefaults r) \<noteq> ''https''"
  thus "probe env (ApplyDefaults r) w
          = CheckPing env (if OriginalIP r = [] then Target r else OriginalIP r)
              (Timeout (ApplyDefaults r)) w"
    by (rule probe_ping)
next
  show "last (ping_cmd env host t) = host" by (simp add: ping_cmd_def)
next
  assume h: "Type (ApplyDefaults r) = ''http'' \<or> Type (ApplyDefaults r) = ''https''"
  show p: "probe env (ApplyDefaults r) w
          = CheckHTTP env (Target r) (Timeout (ApplyDefaults r)) (OriginalIP r) w"
    by (rule probe_http[OF h])
  show "trace (snd (probe env (ApplyDefaults r) w)) = trace w
            \<or> (\<exists>cl. trace (snd (probe env (ApplyDefaults r) w))
                       = trace w @ [HttpGet cl (probe_url (Target r))]
                  \<and> cl_forceIP cl = OriginalIP r)"
    unfolding p by (rule CheckHTTP_events(2)[OF ok Timeout_positive])
next
  assume "cl_forceIP cl \<noteq> [] \<and> SplitHostPort env addr = Some (h, port)"
  thus "DialContext env cl addr = JoinHostPort env (cl_forceIP cl) port"
    by (simp add: DialContext_def)
next
  assume "cl_forceIP cl = []"
  thus "DialContext env cl addr = addr" by (simp add: DialContext_def)
next
  show "cache_ok (CheckMonitor env k w)" by (rule CheckMonitor_cache[OF ok])
qed

theorem probe_pinned_to_primary_witness:
  "cache_ok (scn_world scn_monitor_down)
   \<and> Type (ApplyDefaults scn_monitor_down) = ''https''
   \<and> Status scn_monitor_down = ''Down'' \<and> CurrentIP scn_monitor_down = ''2.2.2.2''
   \<and> OriginalIP scn_monitor_down = ''1.1.1.1''
   \<and> probe scn_env (ApplyDefaults scn_monitor_down) (scn_world scn_monitor_down)
      = CheckHTTP scn_env ''https://example.com'' 5 ''1.1.1.1'' (scn_world scn_monitor_down)
   \<and> trace (snd (probe scn_env (ApplyDefaults scn_monitor_down) (scn_world scn_monitor_down)))
      = [HttpGet \<lparr>cl_Timeout = 5000000000, cl_forceIP = ''1.1.1.1''\<rparr> ''https://example.com'']
   \<and> SplitHostPort scn_env ''example.com:443'' = Some (''example.com'', ''443'')
   \<and> DialContext scn_env \<lparr>cl_Timeout = 5000000000, cl_forceIP = ''1.1.1.1''\<rparr> ''example.com:443''
      = ''1.1.1.1:443''
   \<and> Type (ApplyDefaults (scn_monitor_down\<lparr>Type := ''ping''\<rparr>)) = ''ping''
   \<and> probe scn_env (ApplyDefaults (scn_monitor_down\<lparr>Type := ''ping''\<rparr>)) (scn_world scn_monitor_down)
      = CheckPing scn_env ''1.1.1.1'' 5 (scn_world scn_monitor_down)
   \<and> cache_ok (CheckMonitor scn_env 1 (scn_world scn_monitor_down))"
proof -
  have c: "cache_ok (scn_world scn_monitor_down)" by (simp add: cache_ok_def scn_world_def)
  have v: "Type (ApplyDefaults scn_monitor_down) = ''https''"
    "Status scn_monitor_down = ''Down''" "CurrentIP scn_monitor_down = ''2.2.2.2''"
    "OriginalIP scn_monitor_down = ''1.1.1.1''" "Target scn_monitor_down = ''https://example.com''"
    "Timeout (ApplyDefaults scn_monitor_down) = 5"
    "Type (ApplyDefaults (scn_monitor_down\<lparr>Type := ''ping''\<rparr>)) = ''ping''"
    "OriginalIP (scn_monitor_down\<lparr>Type := ''ping''\<rparr>) = ''1.1.1.1''"
    "Timeout (ApplyDefaults (scn_monitor_down\<lparr>Type := ''ping''\<rparr>)) = 5"
    by (simp_all add: scn_monitor_down_def scn_monitor_def ApplyDefaults_thresholds word_sle_eq)
  have tr: "trace (snd (probe scn_env (ApplyDefaults scn_monitor_down) (scn_world scn_monitor_down)))
      = [HttpGet \<lparr>cl_Timeout = 5000000000, cl_forceIP = ''1.1.1.1''\<rparr> ''https://example.com'']"
    by code_simp
  have sp: "SplitHostPort scn_env ''example.com:443'' = Some (''example.com'', ''443'')"
    "JoinHostPort scn_env ''1.1.1.1'' ''443'' = ''1.1.1.1:443''"
    by (simp_all add: scn_env_def)
  note T = probe_pinned_to_primary[OF c, where env = scn_env and r = scn_monitor_down
             and cl = "\<lparr>cl_Timeout = 5000000000, cl_forceIP = ''1.1.1.1''\<rparr>"
             and addr = "''example.com:443''" and h = "''example.com''" and port = "''443''"
             and k = 1]
  note T2 = probe_pinned_to_primary[OF c, where env = scn_env
             and r = "scn_monitor_down\<lparr>Type := ''ping''\<rparr>"]
  have p1: "probe scn_env (ApplyDefaults scn_monitor_down) (scn_world scn_monitor_down)
      = CheckHTTP scn_env ''https://example.com'' 5 ''1.1.1.1'' (scn_world scn_monitor_down)"
    using T[THEN conjunct2, THEN conjunct2, THEN conjunct2, THEN conjunct1] v by simp
  have d: "DialContext scn_env \<lparr>cl_Timeout = 5000000000, cl_forceIP = ''1.1.1.1''\<rparr> ''example.com:443''
      = ''1.1.1.1:443''"
    using T[THEN conjunct2, THEN conjunct2, THEN conjunct2, THEN conjunct2, THEN conjunct1] sp
    by simp
  have p2: "probe scn_env (ApplyDefaults (scn_monitor_down\<lparr>Type := ''ping''\<rparr>)) (scn_world scn_monitor_down)
      = CheckPing scn_env ''1.1.1.1'' 5 (scn_world scn_monitor_down)"
    using T2[THEN conjunct2, THEN conjunct1] v by simp
  have k: "cache_ok (CheckMonitor scn_env 1 (scn_world scn_monitor_down))"
    using T[THEN conjunct2, THEN conjunct2, THEN conjunct2, THEN conjunct2, THEN conjunct2, THEN conjunct2] .
  show ?thesis using c v(1-4,7) p1 tr sp(1) d p2 k by blast
qed

subsection \<open>C7: a scheduled rotation during a failover\<close>

text \<open>
  C7. When the scheduled-rotation job fires for a monitor whose status is \<open>Down\<close>,
  \<open>ScheduledSwitch\<close> returns the world it was given: no request to the provider is
  issued, no row of the database is written, nothing is notified.
\<close>

theorem ScheduledSwitch_suppressed_when_Down:
  "db_first k w = Some m \<Longrightarrow> Status m = ''Down'' \<Longrightarrow> ScheduledSwitch env k ip w = w"
  by (simp add: ScheduledSwitch_def)

theorem ScheduledSwitch_suppressed_when_Down_witness:
  "db_first 1 (scn_world scn_monitor_down) = Some scn_monitor_down
   \<and> Status scn_monitor_down = ''Down''
   \<and> ScheduledSwitch scn_env 1 ''3.3.3.3'' (scn_world scn_monitor_down)
      = scn_world scn_monitor_down"
  using ScheduledSwitch_suppressed_when_Down
          [of 1 "scn_world scn_monitor_down" scn_monitor_down scn_env "''3.3.3.3''"]
  by (simp add: scn_monitor_down_def scn_monitor_def scn_world_def db_first_def)

subsection \<open>C8: the attempts of the ICMP probe\<close>

text \<open>
  C8. \<open>CheckPing\<close> makes one context, with a timeout of \<open>t + 2\<close> seconds (for every
  timeout \<open>t\<close> whose nanoseconds fit the 64 bits of a duration), and then runs at most
  three commands under it, each \<open>ping\<close> for a single packet: it returns up after the first
  command that succeeds, without starting another, and pauses 500 ms after each command
  that fails; after three failures it returns down. Since the context is the same for all
  attempts, its deadline bounds each of them, counted from the start of the probe.
\<close>

theorem CheckPing_attempts:
  "CheckPing env host t w =
     (if cmd_run env (ping_failed env host t w 0) (ping_ctx t) (ping_cmd env host t)
      then (True, w\<lparr>trace := ping_failed env host t w 0
                              @ [Exec (ping_ctx t) (ping_cmd env host t)]\<rparr>)
      else if cmd_run env (ping_failed env host t w 1) (ping_ctx t) (ping_cmd env host t)
      then (True, w\<lparr>trace := ping_failed env host t w 1
                              @ [Exec (ping_ctx t) (ping_cmd env host t)]\<rparr>)
      else if cmd_run env (ping_failed env host t w 2) (ping_ctx t) (ping_cmd env host t)
      then (True, w\<lparr>trace := ping_failed env host t w 2
                              @ [Exec (ping_ctx t) (ping_cmd env host t)]\<rparr>)
      else (False, w\<lparr>trace := ping_failed env host t w 3\<rparr>))
   \<and> (0 \<le> sint t \<and> sint t \<le> 9223372034 \<longrightarrow>
        sint (ctx_timeout (ping_ctx t)) = (sint t + 2) * 1000000000)
   \<and> ping_cmd env host t =
        (if GOOS env = ''windows''
         then [''ping'', ''-n'', ''1'', ''-w'', Itoa (t * 1000), host]
         else [''ping'', ''-c'', ''1'', ''-W'', Itoa t, host])"
proof (intro conjI)
  have three: "(3::nat) = Suc (Suc (Suc 0))" by simp
  show "CheckPing env host t w =
     (if cmd_run env (ping_failed env host t w 0) (ping_ctx t) (ping_cmd env host t)
      then (True, w\<lparr>trace := ping_failed env host t w 0
                              @ [Exec (ping_ctx t) (ping_cmd env host t)]\<rparr>)
      else if cmd_run env (ping_failed env host t w 1) (ping_ctx t) (ping_cmd env host t)
      then (True, w\<lparr>trace := ping_failed env host t w 1
                              @ [Exec (ping_ctx t) (ping_cmd env host t)]\<rparr>)
      else if cmd_run env (ping_failed env host t w 2) (ping_ctx t) (ping_cmd env host t)
      then (True, w\<lparr>trace := ping_failed env host t w 2
                              @ [Exec (ping_ctx t) (ping_cmd env host t)]\<rparr>)
      else (False, w\<lparr>trace := ping_failed env host t w 3\<rparr>))"
    unfolding CheckPing_def Let_def three ping_loop_step ping_ctx_def[symmetric]
    by (simp add: ping_failed_def emit_def numeral_2_eq_2 numeral_3_eq_3)
  show "0 \<le> sint t \<and> sint t \<le> 9223372034 \<longrightarrow>
        sint (ctx_timeout (ping_ctx t)) = (sint t + 2) * 1000000000"
    using ping_ctx_seconds by blast
  show "ping_cmd env host t =
        (if GOOS env = ''windows''
         then [''ping'', ''-n'', ''1'', ''-w'', Itoa (t * 1000), host]
         else [''ping'', ''-c'', ''1'', ''-W'', Itoa t, host])"
    by (simp add: ping_cmd_def)
qed

theorem CheckPing_attempts_witness:
  "0 \<le> sint (5 :: go_int) \<and> sint (5 :: go_int) \<le> 9223372034
   \<and> sint (ctx_timeout (ping_ctx 5)) = 7000000000
   \<and> fst (CheckPing scn_env ''1.1.1.1'' 5 (scn_world scn_monitor)) = False
   \<and> trace (snd (CheckPing scn_env ''1.1.1.1'' 5 (scn_world scn_monitor)))
      = [WithTimeout \<lparr>ctx_timeout = 7000000000\<rparr>,
         Exec \<lparr>ctx_timeout = 7000000000\<rparr> [''ping'', ''-c'', ''1'', ''-W'', ''5'', ''1.1.1.1''],
         Sleep 500,
         Exec \<lparr>ctx_timeout = 7000000000\<rparr> [''ping'', ''-c'', ''1'', ''-W'', ''5'', ''1.1.1.1''],
         Sleep 500,
         Exec \<lparr>ctx_timeout = 7000000000\<rparr> [''ping'', ''-c'', ''1'', ''-W'', ''5'', ''1.1.1.1''],
         Sleep 500]
   \<and> fst (CheckPing (scn_env\<lparr>cmd_run := (\<lambda>tr ctx cmd. length tr = 3)\<rparr>) ''1.1.1.1'' 5
            (scn_world scn_monitor)) = True
   \<and> trace (snd (CheckPing (scn_env\<lparr>cmd_run := (\<lambda>tr ctx cmd. length tr = 3)\<rparr>) ''1.1.1.1'' 5
            (scn_world scn_monitor)))
      = [WithTimeout \<lparr>ctx_timeout = 7000000000\<rparr>,
         Exec \<lparr>ctx_timeout = 7000000000\<rparr> [''ping'', ''-c'', ''1'', ''-W'', ''5'', ''1.1.1.1''],
         Sleep 500,
         Exec \<lparr>ctx_timeout = 7000000000\<rparr> [''ping'', ''-c'', ''1'', ''-W'', ''5'', ''1.1.1.1'']]"
proof -
  have r: "0 \<le> sint (5 :: go_int)" "sint (5 :: go_int) \<le> 9223372034" by simp_all
  have c: "sint (ctx_timeout (ping_ctx 5)) = 7000000000"
    using CheckPing_attempts[of scn_env "''1.1.1.1''" 5 "scn_world scn_monitor"] r by simp
  have e1: "fst (CheckPing scn_env ''1.1.1.1'' 5 (scn_world scn_monitor)) = False" by code_simp
  have e2: "trace (snd (CheckPing scn_env ''1.1.1.1'' 5 (scn_world scn_monitor)))
      = [WithTimeout \<lparr>ctx_timeout = 7000000000\<rparr>,
         Exec \<lparr>ctx_timeout = 7000000000\<rparr> [''ping'', ''-c'', ''1'', ''-W'', ''5'', ''1.1.1.1''],
         Sleep 500,
         Exec \<lparr>ctx_timeout = 7000000000\<rparr> [''ping'', ''-c'', ''1'', ''-W'', ''5'', ''1.1.1.1''],
         Sleep 500,
         Exec \<lparr>ctx_timeout = 7000000000\<rparr> [''ping'', ''-c'', ''1'', ''-W'', ''5'', ''1.1.1.1''],
         Sleep 500]" by code_simp
  have e3: "fst (CheckPing (scn_env\<lparr>cmd_run := (\<lambda>tr ctx cmd. length tr = 3)\<rparr>) ''1.1.1.1'' 5
            (scn_world scn_monitor)) = True" by code_simp
  have e4: "trace (snd (CheckPing (scn_env\<lparr>cmd_run := (\<lambda>tr ctx cmd. length tr = 3)\<rparr>) ''1.1.1.1'' 5
            (scn_world scn_monitor)))
      = [WithTimeout \<lparr>ctx_timeout = 7000000000\<rparr>,
         Exec \<lparr>ctx_timeout = 7000000000\<rparr> [''ping'', ''-c'', ''1'', ''-W'', ''5'', ''1.1.1.1''],
         Sleep 500,
         Exec \<lparr>ctx_timeout = 7000000000\<rparr> [''ping'', ''-c'', ''1'', ''-W'', ''5'', ''1.1.1.1'']]"
    by code_simp
  show ?thesis using r c e1 e2 e3 e4 by blast
qed


subsection \<open>C9: the credential of a provider call\<close>

text \<open>
  C9 says that a call whose account key matches no credential fails with no request.
  The code falls back: with one account \<open>default\<close> configured, a monitor whose account
  key is \<open>other\<close> has its record updated under the bearer token of \<open>default\<close>, and
  the update succeeds.
\<close>

theorem credential_fallback_counterexample:
  "find (\<lambda>a. acc_Name a = AccountName (scn_monitor\<lparr>AccountName := ''other''\<rparr>)) (Accounts scn_env) = None
   \<and> fst (UpdateCloudflareDNS scn_env (scn_monitor\<lparr>AccountName := ''other''\<rparr>) ''2.2.2.2''
            (scn_world (scn_monitor\<lparr>AccountName := ''other''\<rparr>)))
   \<and> trace (snd (snd (UpdateCloudflareDNS scn_env (scn_monitor\<lparr>AccountName := ''other''\<rparr>) ''2.2.2.2''
            (scn_world (scn_monitor\<lparr>AccountName := ''other''\<rparr>)))))
      = [CfRequest \<lparr>req_method = ''PATCH'',
           req_url = ''https://api.cloudflare.com/client/v4/zones/zone-1/dns_records/rec-1'',
           req_headers = [(''Authorization'', ''Bearer tok''),
                          (''Content-Type'', ''application/json'')],
           req_body = [(''content'', ''2.2.2.2''), (''name'', ''example.com''), (''type'', ''A'')]\<rparr>]"
  by code_simp

text \<open>
  C9, as the code has it. Every request that \<open>UpdateCloudflareDNS\<close> and
  \<open>FetchCloudflareRecordID\<close> issue carries the credentials of the account that
  \<open>GetAccountConfig\<close> selects for the monitor's account key, a bearer token taking
  precedence over the e-mail and global-key headers. That account is the first one with
  the monitor's account key as its name and, when there is none, the first configured
  account. Only when no account is configured at all do both calls fail (the lookup with
  the error that no account was found) without any request and without any change.
\<close>

theorem credential_selected_with_fallback:
  assumes U: "UpdateCloudflareDNS env m ip w = (ok, m1, w1)"
    and F: "FetchCloudflareRecordID env m w = (r, w2)"
  shows "(\<exists>reqs. trace w1 = trace w @ map CfRequest reqs \<and> (\<forall>req\<in>set reqs. auth_ok env m req))
     \<and> (w2 = w \<or> (\<exists>req. w2 = emit (CfRequest req) w \<and> auth_ok env m req))
     \<and> (\<forall>acc. auth_headers acc =
           (if ApiToken acc \<noteq> [] then [(''Authorization'', ''Bearer '' @ ApiToken acc)]
            else [(''X-Auth-Email'', Email acc), (''X-Auth-Key'', ApiKey acc)])
           @ [(''Content-Type'', ''application/json'')])
     \<and> (Accounts env = [] \<longrightarrow>
          \<not> ok \<and> w1 = w \<and> r = Inl (AccountNotFound (AccountName m)) \<and> w2 = w)
     \<and> (find (\<lambda>a. acc_Name a = AccountName m) (Accounts env) = None \<and> Accounts env \<noteq> []
          \<longrightarrow> GetAccountConfig (Accounts env) (AccountName m) = Some (hd (Accounts env)))
     \<and> (\<forall>a. find (\<lambda>a. acc_Name a = AccountName m) (Accounts env) = Some a
          \<longrightarrow> GetAccountConfig (Accounts env) (AccountName m) = Some a)"
proof (intro conjI)
  from Update_summary(1)[OF U]
  show "\<exists>reqs. trace w1 = trace w @ map CfRequest reqs \<and> (\<forall>req\<in>set reqs. auth_ok env m req)"
    by blast
  from Fetch_cases[OF F]
  show "w2 = w \<or> (\<exists>req. w2 = emit (CfRequest req) w \<and> auth_ok env m req)" by blast
  show "\<forall>acc. auth_headers acc =
           (if ApiToken acc \<noteq> [] then [(''Authorization'', ''Bearer '' @ ApiToken acc)]
            else [(''X-Auth-Email'', Email acc), (''X-Auth-Key'', ApiKey acc)])
           @ [(''Content-Type'', ''application/json'')]"
    by (simp add: auth_headers_def)
  show "Accounts env = [] \<longrightarrow>
          \<not> ok \<and> w1 = w \<and> r = Inl (AccountNotFound (AccountName m)) \<and> w2 = w"
    using U F
    by (auto simp: Update_phases patch_record_def FetchCloudflareRecordID_def
                   GetAccountConfig_def split: if_splits)
  show "find (\<lambda>a. acc_Name a = AccountName m) (Accounts env) = None \<and> Accounts env \<noteq> []
          \<longrightarrow> GetAccountConfig (Accounts env) (AccountName m) = Some (hd (Accounts env))"
    using GetAccountConfig_cases by blast
  show "\<forall>a. find (\<lambda>a. acc_Name a = AccountName m) (Accounts env) = Some a
          \<longrightarrow> GetAccountConfig (Accounts env) (AccountName m) = Some a"
    using GetAccountConfig_cases by blast
qed

theorem credential_selected_with_fallback_witness:
  "(\<exists>reqs. trace (snd (snd (UpdateCloudflareDNS scn_env scn_monitor ''2.2.2.2'' (scn_world scn_monitor))))
             = trace (scn_world scn_monitor) @ map CfRequest reqs
           \<and> (\<forall>req\<in>set reqs. auth_ok scn_env scn_monitor req))
   \<and> find (\<lambda>a. acc_Name a = AccountName scn_monitor) (Accounts scn_env) = Some scn_account
   \<and> GetAccountConfig (Accounts scn_env) (AccountName scn_monitor) = Some scn_account
   \<and> Accounts (scn_env\<lparr>Accounts := []\<rparr>) = []
   \<and> \<not> fst (UpdateCloudflareDNS (scn_env\<lparr>Accounts := []\<rparr>) scn_monitor ''2.2.2.2'' (scn_world scn_monitor))
   \<and> fst (FetchCloudflareRecordID (scn_env\<lparr>Accounts := []\<rparr>) scn_monitor (scn_world scn_monitor))
        = Inl (AccountNotFound ''default'')
   \<and> find (\<lambda>a. acc_Name a = AccountName (scn_monitor\<lparr>AccountName := ''other''\<rparr>)) (Accounts scn_env) = None
   \<and> Accounts scn_env \<noteq> []
   \<and> GetAccountConfig (Accounts scn_env) (AccountName (scn_monitor\<lparr>AccountName := ''other''\<rparr>))
        = Some scn_account"
proof -
  have f1: "find (\<lambda>a. acc_Name a = AccountName scn_monitor) (Accounts scn_env) = Some scn_account"
    by (simp add: scn_env_def scn_monitor_def scn_account_def)
  have f2: "find (\<lambda>a. acc_Name a = AccountName (scn_monitor\<lparr>AccountName := ''other''\<rparr>)) (Accounts scn_env) = None"
    by (simp add: scn_env_def scn_monitor_def scn_account_def)
  have f3: "Accounts scn_env \<noteq> []" "hd (Accounts scn_env) = scn_account"
    "AccountName scn_monitor = ''default''"
    by (simp_all add: scn_env_def scn_monitor_def)
  note a = credential_selected_with_fallback
      [of scn_env scn_monitor "''2.2.2.2''" "scn_world scn_monitor"
          "fst (UpdateCloudflareDNS scn_env scn_monitor ''2.2.2.2'' (scn_world scn_monitor))"
          "fst (snd (UpdateCloudflareDNS scn_env scn_monitor ''2.2.2.2'' (scn_world scn_monitor)))"
          "snd (snd (UpdateCloudflareDNS scn_env scn_monitor ''2.2.2.2'' (scn_world scn_monitor)))"
          "fst (FetchCloudflareRecordID scn_env scn_monitor (scn_world scn_monitor))"
          "snd (FetchCloudflareRecordID scn_env scn_monitor (scn_world scn_monitor))"]
  note b = credential_selected_with_fallback
      [of "scn_env\<lparr>Accounts := []\<rparr>" scn_monitor "''2.2.2.2''" "scn_world scn_monitor"
          "fst (UpdateCloudflareDNS (scn_env\<lparr>Accounts := []\<rparr>) scn_monitor ''2.2.2.2'' (scn_world scn_monitor))"
          "fst (snd (UpdateCloudflareDNS (scn_env\<lparr>Accounts := []\<rparr>) scn_monitor ''2.2.2.2'' (scn_world scn_monitor)))"
          "snd (snd (UpdateCloudflareDNS (scn_env\<lparr>Accounts := []\<rparr>) scn_monitor ''2.2.2.2'' (scn_world scn_monitor)))"
          "fst (FetchCloudflareRecordID (scn_env\<lparr>Accounts := []\<rparr>) scn_monitor (scn_world scn_monitor))"
          "snd (FetchCloudflareRecordID (scn_env\<lparr>Accounts := []\<rparr>) scn_monitor (scn_world scn_monitor))"]
  note c = credential_selected_with_fallback
      [of scn_env "scn_monitor\<lparr>AccountName := ''other''\<rparr>" "''2.2.2.2''" "scn_world scn_monitor"
          "fst (UpdateCloudflareDNS scn_env (scn_monitor\<lparr>AccountName := ''other''\<rparr>) ''2.2.2.2'' (scn_world scn_monitor))"
          "fst (snd (UpdateCloudflareDNS scn_env (scn_monitor\<lparr>AccountName := ''other''\<rparr>) ''2.2.2.2'' (scn_world scn_monitor)))"
          "snd (snd (UpdateCloudflareDNS scn_env (scn_monitor\<lparr>AccountName := ''other''\<rparr>) ''2.2.2.2'' (scn_world scn_monitor)))"
          "fst (FetchCloudflareRecordID scn_env (scn_monitor\<lparr>AccountName := ''other''\<rparr>) (scn_world scn_monitor))"
          "snd (FetchCloudflareRecordID scn_env (scn_monitor\<lparr>AccountName := ''other''\<rparr>) (scn_world scn_monitor))"]
  show ?thesis using a b c f1 f2 f3 by simp
qed

subsection \<open>C10: no zone id or no target address\<close>

text \<open>
  C10. A call of \<open>UpdateCloudflareDNS\<close> for a monitor whose zone id is empty, or with an
  empty target address, returns failure at once: the monitor comes back as it went in
  and the world (database, trace of requests and notifications) is unchanged. Hence a
  monitor with an empty zone id never completes a failover, a recovery or a rotation:
  \<open>HandleFailure\<close> and \<open>HandleSuccess\<close> leave status and current address alone and issue
  no event, and \<open>ScheduledSwitch\<close> leaves the world as it is.
\<close>

theorem UpdateCloudflareDNS_missing_zone_or_target:
  "(CFZoneID m = '''' \<or> targetIP = '''' \<longrightarrow> UpdateCloudflareDNS env m targetIP w = (False, m, w))
   \<and> (CFZoneID m = '''' \<longrightarrow>
        Status (fst (HandleFailure env m w)) = Status m
        \<and> CurrentIP (fst (HandleFailure env m w)) = CurrentIP m
        \<and> snd (HandleFailure env m w) = w
        \<and> Status (fst (HandleSuccess env m w)) = Status m
        \<and> CurrentIP (fst (HandleSuccess env m w)) = CurrentIP m
        \<and> snd (HandleSuccess env m w) = w)
   \<and> (db_first k w = Some m \<and> CFZoneID m = '''' \<longrightarrow> ScheduledSwitch env k ip w = w)"
  by (auto simp: UpdateCloudflareDNS_def HandleFailure_def HandleSuccess_def
        ScheduledSwitch_def Let_def)

theorem UpdateCloudflareDNS_missing_zone_or_target_witness:
  "CFZoneID (scn_monitor\<lparr>CFZoneID := []\<rparr>) = []
   \<and> UpdateCloudflareDNS scn_env (scn_monitor\<lparr>CFZoneID := []\<rparr>) ''2.2.2.2''
        (scn_world (scn_monitor\<lparr>CFZoneID := []\<rparr>))
      = (False, scn_monitor\<lparr>CFZoneID := []\<rparr>, scn_world (scn_monitor\<lparr>CFZoneID := []\<rparr>))
   \<and> db_first 1 (scn_world (scn_monitor\<lparr>CFZoneID := []\<rparr>))
      = Some (scn_monitor\<lparr>CFZoneID := []\<rparr>)
   \<and> ScheduledSwitch scn_env 1 ''3.3.3.3'' (scn_world (scn_monitor\<lparr>CFZoneID := []\<rparr>))
      = scn_world (scn_monitor\<lparr>CFZoneID := []\<rparr>)"
  using UpdateCloudflareDNS_missing_zone_or_target
          [of "scn_monitor\<lparr>CFZoneID := []\<rparr>" "''2.2.2.2''" scn_env
              "scn_world (scn_monitor\<lparr>CFZoneID := []\<rparr>)" 1 "''3.3.3.3''"]
  by (simp add: scn_monitor_def scn_world_def db_first_def)

end
